theory Spec2Isabelle
  imports Complex_Main
begin

section \<open>Printer monitor: the polling and alerting core\<close>

text \<open>
  A shallow embedding of the Node.js printer monitor (\<^verbatim>\<open>server.js\<close> with alerts and
  \<^verbatim>\<open>storage.js\<close>). Conventions of the model:
  \<^item> a JavaScript string is a \<^typ>\<open>string\<close>; only code units below 256 are covered;
  \<^item> \<^verbatim>\<open>null\<close>/\<^verbatim>\<open>undefined\<close> is \<^term>\<open>None\<close>; a number that may be \<^verbatim>\<open>NaN\<close> is an
    \<^typ>\<open>int option\<close> with \<^term>\<open>None\<close> for \<^verbatim>\<open>NaN\<close>;
  \<^item> numbers that the source parses or counts are integers; the supply percentage is
    computed as the source does, in IEEE doubles (round to nearest, ties to even, no overflow
    or underflow), a double being the rational it denotes; the downtime quotients are exact;
  \<^item> the wall clock is read once per handler call and passed in as a \<open>clock\<close>;
  \<^item> the JSON files of \<^verbatim>\<open>storage.js\<close> are the values they hold; reads and writes succeed;
  \<^item> the answers of the network are fixed during one poll; an exception inside a poll (the
    \<^verbatim>\<open>catch\<close> of \<^verbatim>\<open>queryPrinter\<close>) has no source in the model;
  \<^item> of the discovery scan only the start request and the first and last statements of
    \<^verbatim>\<open>scanNetworkRange\<close> are modelled; the history recorder and the reports are not.
\<close>

subsection \<open>Clock and decimal rendering\<close>

record clock =
  now_ms :: int      \<comment> \<open>\<^verbatim>\<open>Date.now()\<close>\<close>
  iso :: string      \<comment> \<open>\<^verbatim>\<open>new Date().toISOString()\<close>\<close>
  day :: nat         \<comment> \<open>\<^verbatim>\<open>new Date().getDay()\<close>, 0 = Sunday\<close>
  hhmm :: string     \<comment> \<open>\<^verbatim>\<open>new Date().toTimeString().slice(0, 5)\<close>\<close>

definition digit_char :: "nat \<Rightarrow> char" where
  "digit_char n = ''0123456789'' ! (n mod 10)"

function show_nat :: "nat \<Rightarrow> string" where
  "show_nat n = (if n < 10 then [digit_char n] else show_nat (n div 10) @ [digit_char n])"
  by pat_completeness auto
termination
  by (relation "measure id") auto

declare show_nat.simps [simp del]

definition show_int :: "int \<Rightarrow> string" where
  \<comment> \<open>\<^verbatim>\<open>String(n)\<close> for an integer \<open>n\<close>\<close>
  "show_int i = (if i < 0 then CHR ''-'' # show_nat (nat (- i)) else show_nat (nat i))"

subsection \<open>JavaScript strings and numbers\<close>

definition truthy :: "string option \<Rightarrow> bool" where
  \<comment> \<open>a string-or-null value in a JavaScript condition\<close>
  "truthy v = (case v of None \<Rightarrow> False | Some s \<Rightarrow> s \<noteq> [])"

definition or_default :: "string option \<Rightarrow> string \<Rightarrow> string" where
  \<comment> \<open>\<^verbatim>\<open>v || d\<close> for a string-or-null \<open>v\<close>\<close>
  "or_default v d = (if truthy v then (case v of Some s \<Rightarrow> s | None \<Rightarrow> d) else d)"

definition is_upper :: "char \<Rightarrow> bool" where
  "is_upper c =
     (let n = (of_char c :: nat)
      in (65 \<le> n \<and> n \<le> 90) \<or> (192 \<le> n \<and> n \<le> 222 \<and> n \<noteq> 215))"

definition lower_char :: "char \<Rightarrow> char" where
  \<comment> \<open>the lower-case letter is the upper-case one plus 32\<close>
  "lower_char c =
     (if is_upper c
      then (case c of Char b0 b1 b2 b3 b4 b5 b6 b7 \<Rightarrow> Char b0 b1 b2 b3 b4 True b6 b7)
      else c)"

definition toLowerCase :: "string \<Rightarrow> string" where
  "toLowerCase s = map lower_char s"

definition is_space :: "char \<Rightarrow> bool" where
  \<comment> \<open>white space and line terminators below 256\<close>
  "is_space c = ((of_char c :: nat) \<in> {9, 10, 11, 12, 13, 32, 160})"

definition trim :: "string \<Rightarrow> string" where
  "trim s = rev (dropWhile is_space (rev (dropWhile is_space s)))"

fun starts_with :: "string \<Rightarrow> string \<Rightarrow> bool" where
  "starts_with s [] = True"
| "starts_with [] (c # cs) = False"
| "starts_with (x # xs) (c # cs) = (x = c \<and> starts_with xs cs)"

fun str_includes :: "string \<Rightarrow> string \<Rightarrow> bool" where
  \<comment> \<open>\<^verbatim>\<open>s.includes(sub)\<close>\<close>
  "str_includes [] sub = starts_with [] sub"
| "str_includes (x # xs) sub = (starts_with (x # xs) sub \<or> str_includes xs sub)"

fun str_le :: "string \<Rightarrow> string \<Rightarrow> bool" where
  \<comment> \<open>\<^verbatim>\<open>a <= b\<close> on strings: by code units, a proper prefix is smaller\<close>
  "str_le [] b = True"
| "str_le (x # xs) [] = False"
| "str_le (x # xs) (y # ys) =
     ((of_char x :: nat) < of_char y \<or> (x = y \<and> str_le xs ys))"

definition is_digit :: "char \<Rightarrow> bool" where
  "is_digit c = (48 \<le> (of_char c :: nat) \<and> (of_char c :: nat) \<le> 57)"

definition all_digits :: "string \<Rightarrow> bool" where
  \<comment> \<open>the regular expression \<^verbatim>\<open>/^\d+$/\<close>\<close>
  "all_digits s = (s \<noteq> [] \<and> list_all is_digit s)"

definition digit_val :: "char \<Rightarrow> nat option" where
  "digit_val c =
     (let n = (of_char c :: nat)
      in if 48 \<le> n \<and> n \<le> 57 then Some (n - 48)
         else if 97 \<le> n \<and> n \<le> 102 then Some (n - 87)
         else if 65 \<le> n \<and> n \<le> 70 then Some (n - 55)
         else None)"

definition is_radix_digit :: "nat \<Rightarrow> char \<Rightarrow> bool" where
  "is_radix_digit r c = (case digit_val c of None \<Rightarrow> False | Some v \<Rightarrow> v < r)"

definition digits_value :: "nat \<Rightarrow> string \<Rightarrow> nat" where
  "digits_value r z =
     foldl (\<lambda>acc c. acc * r + (case digit_val c of None \<Rightarrow> 0 | Some v \<Rightarrow> v)) 0 z"

definition parseInt :: "string \<Rightarrow> int option" where
  \<comment> \<open>\<^verbatim>\<open>parseInt(str)\<close> without a radix; \<^term>\<open>None\<close> is \<^verbatim>\<open>NaN\<close>\<close>
  "parseInt str =
     (let s = dropWhile is_space str;
          neg = starts_with s ''-'';
          s1 = (if starts_with s ''-'' \<or> starts_with s ''+'' then tl s else s);
          hex = (starts_with s1 ''0x'' \<or> starts_with s1 ''0X'');
          r = (if hex then 16 else 10);
          s2 = (if hex then drop 2 s1 else s1);
          z = takeWhile (is_radix_digit r) s2
      in if z = [] then None
         else Some ((if neg then - 1 else 1) * int (digits_value r z)))"

definition exponent_ok :: "string \<Rightarrow> bool" where
  \<comment> \<open>nothing, or an exponent part up to the end\<close>
  "exponent_ok s =
     (s = [] \<or>
      ((starts_with s ''e'' \<or> starts_with s ''E'') \<and>
       (let t = tl s;
            u = (if starts_with t ''+'' \<or> starts_with t ''-'' then tl t else t)
        in u \<noteq> [] \<and> list_all is_digit u)))"

definition unsigned_decimal_ok :: "string \<Rightarrow> bool" where
  "unsigned_decimal_ok s =
     (s = ''Infinity'' \<or>
      (let ip = takeWhile is_digit s; r = dropWhile is_digit s
       in if starts_with r ''.''
          then (let fp = takeWhile is_digit (tl r); r2 = dropWhile is_digit (tl r)
                in (ip \<noteq> [] \<or> fp \<noteq> []) \<and> exponent_ok r2)
          else ip \<noteq> [] \<and> exponent_ok r))"

definition non_decimal_ok :: "string \<Rightarrow> bool" where
  "non_decimal_ok s =
     (let body = drop 2 s
      in body \<noteq> [] \<and>
         (((starts_with s ''0x'' \<or> starts_with s ''0X'') \<and> list_all (is_radix_digit 16) body) \<or>
          ((starts_with s ''0o'' \<or> starts_with s ''0O'') \<and> list_all (is_radix_digit 8) body) \<or>
          ((starts_with s ''0b'' \<or> starts_with s ''0B'') \<and> list_all (is_radix_digit 2) body)))"

definition isNaN :: "string \<Rightarrow> bool" where
  \<comment> \<open>\<^verbatim>\<open>isNaN(str)\<close>: the string does not convert to a number\<close>
  "isNaN str =
     (let t = trim str
      in \<not> (t = [] \<or> non_decimal_ok t \<or>
             unsigned_decimal_ok
               (if starts_with t ''+'' \<or> starts_with t ''-'' then tl t else t)))"

definition js_round :: "rat \<Rightarrow> int" where
  \<comment> \<open>\<^verbatim>\<open>Math.round\<close>: halves go up\<close>
  "js_round q = \<lfloor>q + 1 / 2\<rfloor>"

definition round_even :: "rat \<Rightarrow> int" where
  \<comment> \<open>the nearest integer, a tie going to the even one\<close>
  "round_even x =
     (let f = \<lfloor>x\<rfloor>; r = x - of_int f
      in if r < 1 / 2 then f else if 1 / 2 < r then f + 1
         else if even f then f else f + 1)"

fun exp_up :: "nat \<Rightarrow> rat \<Rightarrow> int" where
  \<comment> \<open>how often \<open>q\<close> can be halved before it is below 2, at most \<open>k\<close> times\<close>
  "exp_up 0 q = 0"
| "exp_up (Suc k) q = (if 2 \<le> q then exp_up k (q / 2) + 1 else 0)"

fun exp_down :: "nat \<Rightarrow> rat \<Rightarrow> int" where
  \<comment> \<open>minus how often \<open>q\<close> must be doubled to reach 1, at most \<open>k\<close> times\<close>
  "exp_down 0 q = 0"
| "exp_down (Suc k) q = (if q < 1 then exp_down k (q * 2) - 1 else 0)"

definition binary_exponent :: "rat \<Rightarrow> int" where
  \<comment> \<open>for \<open>q > 0\<close>, the \<open>e\<close> with \<open>2 ^ e \<le> q < 2 ^ (e + 1)\<close>\<close>
  "binary_exponent q =
     (if 1 \<le> q then exp_up (nat \<lfloor>q\<rfloor>) q else exp_down (nat \<lceil>1 / q\<rceil>) q)"

definition to_double :: "rat \<Rightarrow> rat" where
  \<comment> \<open>the double nearest to \<open>q\<close>: 53 significant bits, ties to even\<close>
  "to_double q =
     (if q = 0 then 0
      else (let u = 2 powi (binary_exponent \<bar>q\<bar> - 52)
            in of_int (round_even (q / u)) * u))"

definition double_div :: "rat \<Rightarrow> rat \<Rightarrow> rat" where
  \<comment> \<open>\<^verbatim>\<open>a / b\<close> on doubles, \<open>b\<close> not zero\<close>
  "double_div a b = to_double (a / b)"

definition double_mul :: "rat \<Rightarrow> rat \<Rightarrow> rat" where
  \<comment> \<open>\<^verbatim>\<open>a * b\<close> on doubles\<close>
  "double_mul a b = to_double (a * b)"

subsection \<open>Alert history (\<^verbatim>\<open>storage.js\<close>)\<close>

record details =
  percentage :: "int option"
  lastSeen :: "string option"
  downtime :: "string option"
  dmessage :: "string option"

record alert_input =
  in_type :: string
  in_printerIp :: string
  in_printerName :: string
  in_supplyName :: "string option"
  in_subject :: string
  in_message :: string
  in_details :: details

record alert =
  a_id :: string
  a_type :: string
  a_printerIp :: string
  a_printerName :: string
  a_supplyName :: "string option"
  a_subject :: string
  a_message :: string
  a_details :: details
  a_timestamp :: string
  acknowledged :: bool
  acknowledgedAt :: "string option"
  acknowledgedBy :: "string option"

definition slice_last :: "nat \<Rightarrow> 'a list \<Rightarrow> 'a list" where
  \<comment> \<open>\<^verbatim>\<open>xs.slice(-n)\<close> for \<open>n > 0\<close>\<close>
  "slice_last n xs = drop (length xs - n) xs"

definition saveAlertHistory :: "alert list \<Rightarrow> alert list" where
  \<comment> \<open>the new content of \<^verbatim>\<open>alert-history.json\<close>\<close>
  "saveAlertHistory alerts = slice_last 1000 alerts"

definition newAlert :: "clock \<Rightarrow> alert_input \<Rightarrow> alert" where
  "newAlert clk a =
     \<lparr>a_id = show_int (now_ms clk), a_type = in_type a, a_printerIp = in_printerIp a,
      a_printerName = in_printerName a, a_supplyName = in_supplyName a,
      a_subject = in_subject a, a_message = in_message a, a_details = in_details a,
      a_timestamp = iso clk, acknowledged = False, acknowledgedAt = None,
      acknowledgedBy = None\<rparr>"

definition addAlert :: "clock \<Rightarrow> alert_input \<Rightarrow> alert list \<Rightarrow> alert \<times> alert list" where
  \<comment> \<open>the returned alert and the new file content\<close>
  "addAlert clk a stored =
     (let alerts = stored @ [newAlert clk a]
      in (last alerts, saveAlertHistory alerts))"

fun addAlerts :: "(clock \<times> alert_input) list \<Rightarrow> alert list \<Rightarrow> alert list" where
  "addAlerts [] stored = stored"
| "addAlerts ((clk, a) # rest) stored = addAlerts rest (snd (addAlert clk a stored))"

subsection \<open>Device snapshot\<close>

record supply_entry =
  s_name :: string
  s_current :: int
  s_max :: int
  s_type :: string

record tray =
  t_name :: string
  maxCapacity :: "int option"
  currentLevel :: "int option"
  t_status :: string
  mediaName :: "string option"
  capacityStatus :: "string option"

record device_error =
  severity :: string
  description :: string
  e_timestamp :: string

record network_identity =
  sysName :: "string option"
  sysLocation :: "string option"
  sysContact :: "string option"

record printer =
  ip :: string
  name :: "string option"
  model :: "string option"
  serial :: "string option"
  status :: string
  totalPages :: "int option"
  supplies :: "supply_entry list"
  trays :: "tray list"
  errors :: "device_error list"
  network :: network_identity
  lastUpdate :: string
  online :: bool

subsection \<open>Configuration\<close>

record email_config =
  e_enabled :: bool
  e_host :: string
  e_user :: string
  e_pass :: string

record webhook =
  wh_enabled :: bool
  wh_url :: string
  wh_name :: string

record alerts_config =
  a_enabled :: bool
  lowSupplyThreshold :: int
  criticalSupplyThreshold :: int
  offlineMinutes :: int      \<comment> \<open>0 also stands for an absent value\<close>
  cooldownHours :: int       \<comment> \<open>0 also stands for an absent value\<close>
  notifySchedule :: "string option"
  notifyTime :: "string option"
  notifyEndTime :: "string option"
  notifyDays :: "nat list option"

record config =
  email :: email_config
  webhooks :: "webhook list"
  alerts :: alerts_config

subsection \<open>Alert engine state\<close>

datatype dispatch =
  Email string string string           \<comment> \<open>subject, message, alert type\<close>
| Webhook string string string string  \<comment> \<open>URL, subject, message, alert type\<close>

record engine =
  alertCooldown :: "string \<rightharpoonup> int"
  offlineTimestamps :: "string \<rightharpoonup> int"
  alertHistory :: "alert list"     \<comment> \<open>\<^verbatim>\<open>alert-history.json\<close>\<close>
  outbox :: "dispatch list"        \<comment> \<open>the sends attempted so far, oldest first\<close>

subsection \<open>Cooldown\<close>

definition cooldownMs :: "config \<Rightarrow> int" where
  "cooldownMs cfg =
     (if cooldownHours (alerts cfg) = 0 then 4 else cooldownHours (alerts cfg)) * 60 * 60 * 1000"

definition isInCooldown :: "config \<Rightarrow> clock \<Rightarrow> string \<Rightarrow> engine \<Rightarrow> bool" where
  "isInCooldown cfg clk key st =
     (case alertCooldown st key of
        None \<Rightarrow> False
      | Some lastAlert \<Rightarrow> now_ms clk - lastAlert < cooldownMs cfg)"

definition setCooldown :: "clock \<Rightarrow> string \<Rightarrow> engine \<Rightarrow> engine" where
  "setCooldown clk key st =
     st\<lparr>alertCooldown := (alertCooldown st)(key \<mapsto> now_ms clk)\<rparr>"

definition clearCooldown :: "string \<Rightarrow> engine \<Rightarrow> engine" where
  "clearCooldown key st =
     st\<lparr>alertCooldown := (alertCooldown st)(key := None)\<rparr>"

definition cooldownKey :: "string \<Rightarrow> string \<Rightarrow> string option \<Rightarrow> string" where
  "cooldownKey printerIp type supplyName =
     (case supplyName of
        Some sn \<Rightarrow> (if sn \<noteq> [] then printerIp @ ''-'' @ type @ ''-'' @ sn
                    else printerIp @ ''-'' @ type)
      | None \<Rightarrow> printerIp @ ''-'' @ type)"

subsection \<open>Notification schedule and dispatch\<close>

definition isWithinNotificationSchedule :: "config \<Rightarrow> clock \<Rightarrow> bool" where
  "isWithinNotificationSchedule cfg clk =
     (let alertConfig = alerts cfg;
          schedule = or_default (notifySchedule alertConfig) ''always''
      in if schedule = ''always'' then True
         else
           (let currentDay = day clk;
                currentTime = hhmm clk;
                startTime = or_default (notifyTime alertConfig) ''08:00'';
                endTime = or_default (notifyEndTime alertConfig) ''18:00'';
                isWithinTime = (str_le startTime currentTime \<and> str_le currentTime endTime)
            in if schedule = ''business-hours''
               then (1 \<le> currentDay \<and> currentDay \<le> 5) \<and> isWithinTime
               else if schedule = ''scheduled''
               then (let days =
                           (case notifyDays alertConfig of
                              None \<Rightarrow> [1, 2, 3, 4, 5] | Some ds \<Rightarrow> ds)
                     in List.member days currentDay \<and> isWithinTime)
               else True))"

definition sendEmailNotification ::
  "config \<Rightarrow> clock \<Rightarrow> string \<Rightarrow> string \<Rightarrow> string \<Rightarrow> dispatch list" where
  \<comment> \<open>the send attempted, if the call gets as far as the mail transport\<close>
  "sendEmailNotification cfg clk subj msg alertType =
     (if \<not> e_enabled (email cfg) then []
      else if alertType \<noteq> ''report'' \<and> \<not> isWithinNotificationSchedule cfg clk then []
      else if e_host (email cfg) = [] then []
      else if e_user (email cfg) = [] then []
      else if e_pass (email cfg) = [] then []
      else [Email subj msg alertType])"

definition sendWebhookNotification ::
  "config \<Rightarrow> string \<Rightarrow> string \<Rightarrow> string \<Rightarrow> dispatch list" where
  \<comment> \<open>one post attempted per enabled webhook that has a URL\<close>
  "sendWebhookNotification cfg subj msg alertType =
     map (\<lambda>wh. Webhook (wh_url wh) subj msg alertType)
       (filter (\<lambda>wh. wh_enabled wh \<and> wh_url wh \<noteq> []) (webhooks cfg))"

subsection \<open>Triggering an alert\<close>

definition dquote :: string where
  "dquote = [CHR 0x22]"

definition tmpl_str :: "string option \<Rightarrow> string" where
  \<comment> \<open>a string-or-null value inside a template literal\<close>
  "tmpl_str v = (case v of None \<Rightarrow> ''null'' | Some s \<Rightarrow> s)"

definition tmpl_num :: "int option \<Rightarrow> string" where
  \<comment> \<open>a number-or-undefined value inside a template literal\<close>
  "tmpl_num v = (case v of None \<Rightarrow> ''undefined'' | Some n \<Rightarrow> show_int n)"

definition alertText ::
  "string \<Rightarrow> string \<Rightarrow> string \<Rightarrow> string option \<Rightarrow> details \<Rightarrow> string \<times> string" where
  \<comment> \<open>the \<^verbatim>\<open>switch\<close> of \<^verbatim>\<open>triggerAlert\<close>: subject and message\<close>
  "alertText type printerIp printerName supplyName d =
     (if type = ''critical-supply'' then
        (''Critical: '' @ printerName @ '' - '' @ tmpl_str supplyName @ '' at ''
           @ tmpl_num (percentage d) @ ''%'',
         ''The '' @ tmpl_str supplyName @ '' on printer '' @ dquote @ printerName @ dquote
           @ '' ('' @ printerIp @ '') has reached a critical level of ''
           @ tmpl_num (percentage d) @ ''%. Immediate replacement recommended.'')
      else if type = ''low-supply'' then
        (''Low Supply: '' @ printerName @ '' - '' @ tmpl_str supplyName @ '' at ''
           @ tmpl_num (percentage d) @ ''%'',
         ''The '' @ tmpl_str supplyName @ '' on printer '' @ dquote @ printerName @ dquote
           @ '' ('' @ printerIp @ '') is running low at ''
           @ tmpl_num (percentage d) @ ''%. Consider ordering replacement supplies.'')
      else if type = ''offline'' then
        (''Offline: '' @ printerName,
         ''Printer '' @ dquote @ printerName @ dquote @ '' ('' @ printerIp
           @ '') has gone offline. Last seen: '' @ or_default (lastSeen d) ''Unknown'')
      else if type = ''back-online'' then
        (''Back Online: '' @ printerName,
         ''Printer '' @ dquote @ printerName @ dquote @ '' ('' @ printerIp
           @ '') is back online after being offline for ''
           @ or_default (downtime d) ''some time'' @ ''.'')
      else
        (''Alert: '' @ printerName, or_default (dmessage d) ''An alert was triggered.''))"

definition triggerAlert ::
  "config \<Rightarrow> clock \<Rightarrow> string \<Rightarrow> string \<Rightarrow> string \<Rightarrow> string option \<Rightarrow> details
     \<Rightarrow> engine \<Rightarrow> alert option \<times> engine" where
  "triggerAlert cfg clk type printerIp printerName supplyName d st =
     (let key = cooldownKey printerIp type supplyName
      in if isInCooldown cfg clk key st then (None, st)
         else
           (let (subj, msg) = alertText type printerIp printerName supplyName d;
                (alert, stored) =
                   addAlert clk
                     \<lparr>in_type = type, in_printerIp = printerIp, in_printerName = printerName,
                      in_supplyName = supplyName, in_subject = subj, in_message = msg,
                      in_details = d\<rparr>
                     (alertHistory st);
                st1 = setCooldown clk key (st\<lparr>alertHistory := stored\<rparr>);
                st2 = (if a_enabled (alerts cfg)
                       then st1\<lparr>outbox := outbox st1
                                  @ sendEmailNotification cfg clk subj msg type
                                  @ sendWebhookNotification cfg subj msg type\<rparr>
                       else st1)
            in (Some alert, st2)))"

subsection \<open>Checking the fleet for alert conditions\<close>

definition no_details :: details where
  "no_details = \<lparr>percentage = None, lastSeen = None, downtime = None, dmessage = None\<rparr>"

definition supplyPercentage :: "supply_entry \<Rightarrow> int" where
  \<comment> \<open>the percentage of \<^verbatim>\<open>checkAlerts\<close>; the one of the history recorder has 0 for 100\<close>
  "supplyPercentage sp =
     (if s_max sp > 0
      then js_round (double_mul (double_div (of_int (s_current sp)) (of_int (s_max sp))) 100)
      else 100)"

definition checkSupply :: "config \<Rightarrow> clock \<Rightarrow> printer \<Rightarrow> supply_entry \<Rightarrow> engine \<Rightarrow> engine" where
  \<comment> \<open>the body of the supply loop\<close>
  "checkSupply cfg clk p sp st =
     (let pct = supplyPercentage sp;
          supplyName = toLowerCase (s_name sp)
      in if \<not> str_includes supplyName ''toner'' \<and> \<not> str_includes supplyName ''ink'' then st
         else if str_includes supplyName ''drum'' \<or> str_includes supplyName ''fuser'' then st
         else if pct \<ge> 0 \<and> pct < criticalSupplyThreshold (alerts cfg) then
           snd (triggerAlert cfg clk ''critical-supply'' (ip p) (or_default (name p) (ip p))
                  (Some (s_name sp)) (no_details\<lparr>percentage := Some pct\<rparr>) st)
         else if pct \<ge> criticalSupplyThreshold (alerts cfg)
                 \<and> pct < lowSupplyThreshold (alerts cfg) then
           snd (triggerAlert cfg clk ''low-supply'' (ip p) (or_default (name p) (ip p))
                  (Some (s_name sp)) (no_details\<lparr>percentage := Some pct\<rparr>) st)
         else st)"

definition downtimeStr :: "int \<Rightarrow> string" where
  "downtimeStr dt =
     (if dt > 3600000 then show_int (js_round (of_int dt / 3600000)) @ '' hours''
      else show_int (js_round (of_int dt / 60000)) @ '' minutes'')"

definition offlineThresholdMs :: "config \<Rightarrow> int" where
  "offlineThresholdMs cfg =
     (if offlineMinutes (alerts cfg) = 0 then 5 else offlineMinutes (alerts cfg)) * 60 * 1000"

definition checkOffline :: "config \<Rightarrow> clock \<Rightarrow> printer \<Rightarrow> engine \<Rightarrow> engine" where
  \<comment> \<open>the branch of the printer loop for a device that is not online\<close>
  "checkOffline cfg clk p st =
     (let st1 = (case offlineTimestamps st (ip p) of
                   None \<Rightarrow> st\<lparr>offlineTimestamps := (offlineTimestamps st)(ip p \<mapsto> now_ms clk)\<rparr>
                 | Some t \<Rightarrow> st);
          offlineDuration =
            now_ms clk - (case offlineTimestamps st1 (ip p) of Some t \<Rightarrow> t | None \<Rightarrow> now_ms clk)
      in if offlineDuration \<ge> offlineThresholdMs cfg
         then snd (triggerAlert cfg clk ''offline'' (ip p) (or_default (name p) (ip p)) None
                     (no_details\<lparr>lastSeen := Some (lastUpdate p)\<rparr>) st1)
         else st1)"

definition checkRecovery :: "config \<Rightarrow> clock \<Rightarrow> printer \<Rightarrow> engine \<Rightarrow> engine" where
  \<comment> \<open>the first statement of the branch for an online device: was it offline before?\<close>
  "checkRecovery cfg clk p st =
     (case offlineTimestamps st (ip p) of
        None \<Rightarrow> st
      | Some t \<Rightarrow>
          (let dt = now_ms clk - t;
               st' = snd (triggerAlert cfg clk ''back-online'' (ip p)
                            (or_default (name p) (ip p)) None
                            (no_details\<lparr>downtime := Some (downtimeStr dt)\<rparr>) st)
           in st'\<lparr>offlineTimestamps := (offlineTimestamps st')(ip p := None)\<rparr>))"

definition checkPrinter :: "config \<Rightarrow> clock \<Rightarrow> printer \<Rightarrow> engine \<Rightarrow> engine" where
  \<comment> \<open>the body of the printer loop\<close>
  "checkPrinter cfg clk p st =
     (if \<not> online p \<or> status p = ''offline'' then checkOffline cfg clk p st
      else foldl (\<lambda>acc sp. checkSupply cfg clk p sp acc) (checkRecovery cfg clk p st)
             (supplies p))"

definition checkAlerts :: "config \<Rightarrow> clock \<Rightarrow> printer list \<Rightarrow> engine \<Rightarrow> engine" where
  "checkAlerts cfg clk printerList st =
     (if \<not> a_enabled (alerts cfg) then st
      else foldl (\<lambda>acc p. checkPrinter cfg clk p acc) st printerList)"

subsection \<open>Acknowledging an alert\<close>

fun mark_first :: "string \<Rightarrow> (alert \<Rightarrow> alert) \<Rightarrow> alert list \<Rightarrow> alert list" where
  \<comment> \<open>the update in place of the alert that \<^verbatim>\<open>find\<close> returns\<close>
  "mark_first alertId f [] = []"
| "mark_first alertId f (a # as) =
     (if a_id a = alertId then f a # as else a # mark_first alertId f as)"

definition acknowledgeAlert ::
  "clock \<Rightarrow> string \<Rightarrow> string \<Rightarrow> alert list \<Rightarrow> alert option \<times> alert list" where
  "acknowledgeAlert clk alertId by stored =
     (let f = (\<lambda>a. a\<lparr>acknowledged := True, acknowledgedAt := Some (iso clk),
                       acknowledgedBy := Some by\<rparr>)
      in case find (\<lambda>a. a_id a = alertId) stored of
           None \<Rightarrow> (None, stored)
         | Some a \<Rightarrow> (Some (f a), saveAlertHistory (mark_first alertId f stored)))"

datatype ack_response = AckOk alert | AckNotFound

definition post_acknowledge ::
  "clock \<Rightarrow> string \<Rightarrow> string \<Rightarrow> engine \<Rightarrow> ack_response \<times> engine" where
  \<comment> \<open>\<^verbatim>\<open>POST /api/alerts/:id/acknowledge\<close>\<close>
  "post_acknowledge clk alertId by st =
     (case acknowledgeAlert clk alertId by (alertHistory st) of
        (Some a, stored) \<Rightarrow>
          (AckOk a,
           clearCooldown (cooldownKey (a_printerIp a) (a_type a) (a_supplyName a))
             (st\<lparr>alertHistory := stored\<rparr>))
      | (None, stored) \<Rightarrow> (AckNotFound, st))"

definition post_acknowledge_all :: "clock \<Rightarrow> engine \<Rightarrow> nat \<times> engine" where
  \<comment> \<open>\<^verbatim>\<open>POST /api/alerts/acknowledge-all\<close>: the count reported and the new state; the
     loop runs over the alerts as loaded, each \<open>acknowledgeAlert\<close> reloads the file\<close>
  "post_acknowledge_all clk st =
     (let alerts = alertHistory st;
          res = foldl
                  (\<lambda>(stored, count) a.
                     if \<not> acknowledged a
                     then (snd (acknowledgeAlert clk (a_id a) ''user'' stored), count + 1)
                     else (stored, count))
                  (alertHistory st, 0) alerts
      in (snd res, st\<lparr>alertHistory := fst res\<rparr>))"

subsection \<open>SNMP access\<close>

datatype oid_field =
    Description | SysName | SysLocation | SysContact
  | Serial | SerialAlt1 | SerialAlt2 | SerialAlt3
  | Status | DeviceStatus | StatusAlt1
  | TotalPages | TotalPagesAlt1 | TotalPagesAlt2 | TotalPagesAlt3
  | TotalPagesAlt4 | TotalPagesAlt5 | TotalPagesAlt6
  | SupplyDesc | SupplyMax | SupplyCurrent
  | InputTrayName | InputTrayCapacityMax | InputTrayCapacityCurrent
  | InputTrayStatus | InputTrayMediaName
  | AlertSeverity | AlertGroup | AlertIndex | AlertDescription

fun PRINTER_OIDS :: "oid_field \<Rightarrow> string" where
  "PRINTER_OIDS Description = ''1.3.6.1.2.1.1.1.0''"
| "PRINTER_OIDS SysName = ''1.3.6.1.2.1.1.5.0''"
| "PRINTER_OIDS SysLocation = ''1.3.6.1.2.1.1.6.0''"
| "PRINTER_OIDS SysContact = ''1.3.6.1.2.1.1.4.0''"
| "PRINTER_OIDS Serial = ''1.3.6.1.2.1.43.5.1.1.17.1''"
| "PRINTER_OIDS SerialAlt1 = ''1.3.6.1.4.1.11.2.3.9.4.2.1.1.3.3.0''"
| "PRINTER_OIDS SerialAlt2 = ''1.3.6.1.4.1.2699.1.2.1.2.1.1.3.1''"
| "PRINTER_OIDS SerialAlt3 = ''1.3.6.1.2.1.43.5.1.1.17''"
| "PRINTER_OIDS Status = ''1.3.6.1.2.1.25.3.5.1.1.1''"
| "PRINTER_OIDS DeviceStatus = ''1.3.6.1.2.1.43.16.5.1.2.1.1''"
| "PRINTER_OIDS StatusAlt1 = ''1.3.6.1.4.1.11.2.3.9.1.1.3.0''"
| "PRINTER_OIDS TotalPages = ''1.3.6.1.2.1.43.10.2.1.4.1.1''"
| "PRINTER_OIDS TotalPagesAlt1 = ''1.3.6.1.4.1.11.2.3.9.4.2.1.4.1.2.5.0''"
| "PRINTER_OIDS TotalPagesAlt2 = ''1.3.6.1.2.1.43.10.2.1.4.1''"
| "PRINTER_OIDS TotalPagesAlt3 = ''1.3.6.1.4.1.1347.43.10.1.1.12.1.1''"
| "PRINTER_OIDS TotalPagesAlt4 = ''1.3.6.1.4.1.253.8.53.13.2.1.6.1.20.1''"
| "PRINTER_OIDS TotalPagesAlt5 = ''1.3.6.1.4.1.367.3.2.1.2.19.5.1.9.1''"
| "PRINTER_OIDS TotalPagesAlt6 = ''1.3.6.1.2.1.43.10.2.1.5.1.1''"
| "PRINTER_OIDS SupplyDesc = ''1.3.6.1.2.1.43.11.1.1.6.1''"
| "PRINTER_OIDS SupplyMax = ''1.3.6.1.2.1.43.11.1.1.8.1''"
| "PRINTER_OIDS SupplyCurrent = ''1.3.6.1.2.1.43.11.1.1.9.1''"
| "PRINTER_OIDS InputTrayName = ''1.3.6.1.2.1.43.8.2.1.9.1''"
| "PRINTER_OIDS InputTrayCapacityMax = ''1.3.6.1.2.1.43.8.2.1.10.1''"
| "PRINTER_OIDS InputTrayCapacityCurrent = ''1.3.6.1.2.1.43.8.2.1.11.1''"
| "PRINTER_OIDS InputTrayStatus = ''1.3.6.1.2.1.43.8.2.1.12.1''"
| "PRINTER_OIDS InputTrayMediaName = ''1.3.6.1.2.1.43.8.2.1.18.1''"
| "PRINTER_OIDS AlertSeverity = ''1.3.6.1.2.1.43.18.1.1.2.1''"
| "PRINTER_OIDS AlertGroup = ''1.3.6.1.2.1.43.18.1.1.4.1''"
| "PRINTER_OIDS AlertIndex = ''1.3.6.1.2.1.43.18.1.1.5.1''"
| "PRINTER_OIDS AlertDescription = ''1.3.6.1.2.1.43.18.1.1.8.1''"

text \<open>
  The network as the poller sees it during one poll: what a GET of an OID resolves to
  (\<^term>\<open>None\<close> for an error, a time-out or an error varbind) and what a WALK collects
  (the empty list on an error). Arguments: address, OID, community.
\<close>

record snmp_net =
  snmpGet :: "string \<Rightarrow> string \<Rightarrow> string \<Rightarrow> string option"
  snmpWalk :: "string \<Rightarrow> string \<Rightarrow> string \<Rightarrow> string list"

subsection \<open>Status tables\<close>

definition DEVICE_STATUS :: "int \<Rightarrow> string option" where
  "DEVICE_STATUS c =
     (if c = 1 then Some ''other'' else if c = 2 then Some ''unknown''
      else if c = 3 then Some ''idle'' else if c = 4 then Some ''printing''
      else if c = 5 then Some ''warmup'' else if c = 6 then Some ''waiting'' else None)"

definition TRAY_STATUS :: "int \<Rightarrow> string option" where
  "TRAY_STATUS c =
     (if c = 0 then Some ''unknown'' else if c = 1 then Some ''available''
      else if c = 2 then Some ''unavailable'' else if c = 3 then Some ''empty''
      else if c = 4 then Some ''paper-jam'' else if c = 5 then Some ''tray-missing'' else None)"

definition ALERT_SEVERITY :: "int \<Rightarrow> string option" where
  "ALERT_SEVERITY c =
     (if c = 1 then Some ''other'' else if c = 2 then Some ''critical''
      else if c = 3 then Some ''warning'' else if c = 4 then Some ''info'' else None)"

definition table_or :: "(int \<Rightarrow> string option) \<Rightarrow> int option \<Rightarrow> string \<Rightarrow> string" where
  \<comment> \<open>\<^verbatim>\<open>TABLE[code] || d\<close>, the code possibly \<^verbatim>\<open>NaN\<close>\<close>
  "table_or tab code d = (case code of None \<Rightarrow> d | Some c \<Rightarrow> or_default (tab c) d)"

subsection \<open>Supply table\<close>

definition supplyType :: "string \<Rightarrow> string" where
  \<comment> \<open>the classification by the lower-cased, trimmed name\<close>
  "supplyType nameLower =
     (if str_includes nameLower ''toner'' \<or> str_includes nameLower ''ink''
         \<or> str_includes nameLower ''cartridge''
      then (if str_includes nameLower ''waste'' then ''waste'' else ''toner'')
      else if str_includes nameLower ''drum'' then ''drum''
      else if str_includes nameLower ''fuser'' \<or> str_includes nameLower ''fixing'' then ''fuser''
      else if str_includes nameLower ''belt'' \<or> str_includes nameLower ''transfer''
      then ''transfer''
      else if str_includes nameLower ''maintenance'' \<or> str_includes nameLower ''kit''
      then ''maintenance''
      else ''other'')"

definition supplyRow :: "string \<Rightarrow> string \<Rightarrow> string \<Rightarrow> supply_entry option" where
  \<comment> \<open>the body of the supply loop at one index: the entry pushed, if any\<close>
  "supplyRow rawName rawMax rawCurrent =
     (let maxVal = parseInt rawMax;
          currentVal = parseInt rawCurrent;
          nameLower = trim (toLowerCase rawName)
      in case maxVal of
           None \<Rightarrow> None
         | Some m \<Rightarrow>
             (case currentVal of
                None \<Rightarrow> None
              | Some c \<Rightarrow>
                  if m > 0 \<and> rawName \<noteq> [] then
                    (if all_digits (trim rawName) \<or> length (trim rawName) < 3 then None
                     else
                       (let type = supplyType nameLower
                        in if type \<noteq> ''other''
                           then Some \<lparr>s_name = trim rawName, s_current = c, s_max = m,
                                      s_type = type\<rparr>
                           else None))
                  else None))"

definition processSupplies :: "string list \<Rightarrow> string list \<Rightarrow> string list \<Rightarrow> supply_entry list" where
  "processSupplies supplyNames supplyMax supplyCurrent =
     (if length supplyNames > 0 \<and> length supplyMax > 0 \<and> length supplyCurrent > 0
      then foldl
             (\<lambda>acc i.
                if i < length supplyMax \<and> i < length supplyCurrent
                then (case supplyRow (supplyNames ! i) (supplyMax ! i) (supplyCurrent ! i) of
                        None \<Rightarrow> acc | Some e \<Rightarrow> acc @ [e])
                else acc)
             [] [0 ..< length supplyNames]
      else [])"

subsection \<open>Tray table\<close>

definition decimal_number :: "string \<Rightarrow> bool" where
  \<comment> \<open>the regular expression \<^verbatim>\<open>/^\d+(\.\d+)?$/\<close>\<close>
  "decimal_number s =
     (let ip = takeWhile is_digit s; r = dropWhile is_digit s
      in ip \<noteq> [] \<and> (r = [] \<or> (starts_with r ''.'' \<and> all_digits (tl r))))"

definition has_control :: "string \<Rightarrow> bool" where
  \<comment> \<open>the regular expression \<^verbatim>\<open>/[\x00-\x1F\x7F-\x9F]/\<close>\<close>
  "has_control s =
     list_ex (\<lambda>c. (of_char c :: nat) \<le> 31 \<or> (127 \<le> (of_char c :: nat) \<and> (of_char c :: nat) \<le> 159)) s"

definition signed_digits :: "string \<Rightarrow> bool" where
  \<comment> \<open>the regular expression \<^verbatim>\<open>/^-?\d+$/\<close>\<close>
  "signed_digits s = all_digits (if starts_with s ''-'' then tl s else s)"

definition isTray :: "string \<Rightarrow> bool" where
  "isTray nameLower =
     (str_includes nameLower ''tray'' \<or> str_includes nameLower ''drawer''
      \<or> str_includes nameLower ''cassette'' \<or> str_includes nameLower ''bypass''
      \<or> str_includes nameLower ''manual feed'' \<or> str_includes nameLower ''multi-purpose''
      \<or> str_includes nameLower ''multipurpose'' \<or> str_includes nameLower ''mpt'')"

definition trayRow ::
  "tray list \<Rightarrow> string \<Rightarrow> int option \<Rightarrow> int option \<Rightarrow> int option \<Rightarrow> string option
     \<Rightarrow> tray option" where
  \<comment> \<open>the body of the tray loop at one index, given the trays pushed so far\<close>
  "trayRow acc rawName maxCap curLevel statusCode media =
     (let nameLower = trim (toLowerCase rawName)
      in if rawName = [] \<or> length (trim rawName) < 3 \<or> decimal_number (trim rawName) then None
         else if has_control rawName then None
         else if \<not> isTray nameLower then None
         else if list_ex (\<lambda>t. toLowerCase (t_name t) = toLowerCase (trim rawName)) acc then None
         else
           Some \<lparr>t_name = trim rawName,
                 maxCapacity = (case maxCap of None \<Rightarrow> None
                                | Some m \<Rightarrow> if m > 0 then Some m else None),
                 currentLevel = (case curLevel of None \<Rightarrow> None
                                 | Some c \<Rightarrow> if c > 0 then Some c else None),
                 t_status = table_or TRAY_STATUS statusCode ''unknown'',
                 mediaName = (if truthy media
                                 \<and> \<not> signed_digits (case media of Some v \<Rightarrow> v | None \<Rightarrow> [])
                              then media else None),
                 capacityStatus =
                   (case curLevel of
                      None \<Rightarrow> None
                    | Some c \<Rightarrow>
                        if c > 0 then None
                        else if c = - 1 then Some ''has-paper''
                        else if c = - 3 then Some ''has-paper''
                        else if c = 0 then Some ''empty''
                        else None)\<rparr>)"

definition processTrays ::
  "string list \<Rightarrow> string list \<Rightarrow> string list \<Rightarrow> string list \<Rightarrow> string list \<Rightarrow> tray list" where
  "processTrays trayNames trayMaxCapacity trayCurrentLevel trayStatus trayMediaName =
     foldl
       (\<lambda>acc i.
          case trayRow acc (trayNames ! i)
                 (if i < length trayMaxCapacity then parseInt (trayMaxCapacity ! i) else Some (- 1))
                 (if i < length trayCurrentLevel then parseInt (trayCurrentLevel ! i) else Some (- 1))
                 (if i < length trayStatus then parseInt (trayStatus ! i) else Some 0)
                 (if i < length trayMediaName then Some (trayMediaName ! i) else None) of
            None \<Rightarrow> acc
          | Some t \<Rightarrow> acc @ [t])
       [] [0 ..< length trayNames]"

subsection \<open>Alert table\<close>

definition processErrors :: "clock \<Rightarrow> string list \<Rightarrow> string list \<Rightarrow> device_error list" where
  "processErrors clk alertSeverities alertDescriptions =
     foldl
       (\<lambda>acc i.
          let severityCode = parseInt (alertSeverities ! i);
              descr = (if i < length alertDescriptions then alertDescriptions ! i
                       else ''Unknown alert'')
          in if severityCode = Some 2 \<or> severityCode = Some 3
             then acc @ [\<lparr>severity = table_or ALERT_SEVERITY severityCode ''unknown'',
                          description = descr, e_timestamp = iso clk\<rparr>]
             else acc)
       [] [0 ..< length alertSeverities]"

subsection \<open>Polling one device\<close>

definition not_numeric :: "string option \<Rightarrow> bool" where
  \<comment> \<open>\<^verbatim>\<open>!v || isNaN(v)\<close>\<close>
  "not_numeric v = (case v of None \<Rightarrow> True | Some s \<Rightarrow> s = [] \<or> isNaN s)"

definition blankPrinter :: "clock \<Rightarrow> string \<Rightarrow> printer" where
  \<comment> \<open>the record every poll starts from\<close>
  "blankPrinter clk addr =
     \<lparr>ip = addr, name = None, model = None, serial = None, status = ''unknown'',
      totalPages = Some 0, supplies = [], trays = [], errors = [],
      network = \<lparr>sysName = None, sysLocation = None, sysContact = None\<rparr>,
      lastUpdate = iso clk, online = False\<rparr>"

definition resolveSerial :: "(oid_field \<Rightarrow> string option) \<Rightarrow> string option" where
  \<comment> \<open>the serial number chain; \<open>get\<close> is a GET on this device\<close>
  "resolveSerial get =
     (let serial0 = get Serial;
          serial1 = (if \<not> truthy serial0 then get SerialAlt1 else serial0);
          serial2 = (if \<not> truthy serial1 then get SerialAlt2 else serial1)
      in if truthy serial2 then serial2 else None)"

definition resolveStatus :: "(oid_field \<Rightarrow> string option) \<Rightarrow> string" where
  \<comment> \<open>the status chain; the result is the new value of \<^verbatim>\<open>printerData.status\<close>\<close>
  "resolveStatus get =
     (let status0 = get DeviceStatus;
          status1 = (if \<not> truthy status0 then get StatusAlt1 else status0)
      in case status1 of
           None \<Rightarrow> ''unknown''
         | Some v \<Rightarrow>
             if v \<noteq> [] \<and> \<not> isNaN v then table_or DEVICE_STATUS (parseInt v) ''unknown''
             else ''unknown'')"

definition resolvePages :: "(oid_field \<Rightarrow> string option) \<Rightarrow> int option" where
  \<comment> \<open>the page count chain; the result is the new value of \<^verbatim>\<open>printerData.totalPages\<close>\<close>
  "resolvePages get =
     (let pages0 = get TotalPages;
          pages1 = (if not_numeric pages0 then get TotalPagesAlt1 else pages0);
          pages2 = (if not_numeric pages1 then get TotalPagesAlt2 else pages1);
          pages3 = (if not_numeric pages2 then get TotalPagesAlt3 else pages2);
          pages4 = (if not_numeric pages3 then get TotalPagesAlt4 else pages3);
          pages5 = (if not_numeric pages4 then get TotalPagesAlt5 else pages4);
          pages6 = (if not_numeric pages5 then get TotalPagesAlt6 else pages5)
      in case pages6 of
           None \<Rightarrow> Some 0
         | Some v \<Rightarrow> if v \<noteq> [] \<and> \<not> isNaN v then parseInt v else Some 0)"

definition null_if_falsy :: "string option \<Rightarrow> string option" where
  \<comment> \<open>\<^verbatim>\<open>v || null\<close>\<close>
  "null_if_falsy v = (if truthy v then v else None)"

definition queryPrinter :: "snmp_net \<Rightarrow> clock \<Rightarrow> string \<Rightarrow> string \<Rightarrow> printer" where
  "queryPrinter net clk addr community =
     (let printerData = blankPrinter clk addr;
          get = (\<lambda>f. snmpGet net addr (PRINTER_OIDS f) community);
          walk = (\<lambda>f. snmpWalk net addr (PRINTER_OIDS f) community);
          desc = get Description
      in if \<not> truthy desc then printerData\<lparr>status := ''offline''\<rparr>
         else
           printerData
             \<lparr>online := True,
              name := map_option (take 50) desc,
              model := map_option (take 50) desc,
              serial := resolveSerial get,
              status := resolveStatus get,
              totalPages := resolvePages get,
              network := \<lparr>sysName = null_if_falsy (get SysName),
                          sysLocation = null_if_falsy (get SysLocation),
                          sysContact = null_if_falsy (get SysContact)\<rparr>,
              supplies := processSupplies (walk SupplyDesc) (walk SupplyMax) (walk SupplyCurrent),
              trays := processTrays (walk InputTrayName) (walk InputTrayCapacityMax)
                         (walk InputTrayCapacityCurrent) (walk InputTrayStatus)
                         (walk InputTrayMediaName),
              errors := processErrors clk (walk AlertSeverity) (walk AlertDescription)\<rparr>)"

subsection \<open>Background refresh\<close>

fun registry_set :: "string \<Rightarrow> printer \<Rightarrow> (string \<times> printer) list \<Rightarrow> (string \<times> printer) list" where
  \<comment> \<open>\<^verbatim>\<open>printers.set(ip, data)\<close>: a known key keeps its place\<close>
  "registry_set k v [] = [(k, v)]"
| "registry_set k v ((k', v') # rest) =
     (if k' = k then (k, v) # rest else (k', v') # registry_set k v rest)"

definition refreshAll ::
  "snmp_net \<Rightarrow> clock \<Rightarrow> (string \<times> printer) list \<Rightarrow> (string \<times> printer) list" where
  \<comment> \<open>the loop of the background refresh over the registered addresses\<close>
  "refreshAll net clk printers =
     foldl (\<lambda>reg addr. registry_set addr (queryPrinter net clk addr ''public'') reg)
       printers (map fst printers)"

definition autoRefresh ::
  "config \<Rightarrow> snmp_net \<Rightarrow> clock \<Rightarrow> bool \<Rightarrow> (string \<times> printer) list \<times> engine
     \<Rightarrow> (string \<times> printer) list \<times> engine" where
  \<comment> \<open>one tick of the 60 second timer; the flag is \<^verbatim>\<open>scanStatus.scanning\<close>\<close>
  "autoRefresh cfg net clk scan_active s =
     (case s of (printers, st) \<Rightarrow>
        if length printers > 0 \<and> \<not> scan_active
        then (let printers' = refreshAll net clk printers
              in (printers', checkAlerts cfg clk (map snd printers') st))
        else (printers, st))"

subsection \<open>Discovery scan: the start request\<close>

record scan_status =
  scanning :: bool
  lastScan :: "string option"

record scan_state =
  scanStatus :: scan_status
  started :: "(string \<times> string) list"
    \<comment> \<open>the calls of \<^verbatim>\<open>scanNetworkRange\<close> made so far: prefix and community\<close>

datatype scan_response = Conflict409 | ScanStarted string

definition scanNetworkRange_begin :: "string \<Rightarrow> string \<Rightarrow> scan_state \<Rightarrow> scan_state" where
  \<comment> \<open>\<^verbatim>\<open>scanNetworkRange\<close> up to its first \<^verbatim>\<open>await\<close>\<close>
  "scanNetworkRange_begin networkPrefix community s =
     s\<lparr>scanStatus := (scanStatus s)\<lparr>scanning := True\<rparr>,
       started := started s @ [(networkPrefix, community)]\<rparr>"

definition scanNetworkRange_end :: "clock \<Rightarrow> scan_state \<Rightarrow> scan_state" where
  \<comment> \<open>the statements of \<^verbatim>\<open>scanNetworkRange\<close> after its loop\<close>
  "scanNetworkRange_end clk s =
     s\<lparr>scanStatus := \<lparr>scanning = False, lastScan = Some (iso clk)\<rparr>\<rparr>"

definition post_scan ::
  "string option \<Rightarrow> string option \<Rightarrow> scan_state \<Rightarrow> scan_response \<times> scan_state" where
  \<comment> \<open>\<^verbatim>\<open>POST /api/scan\<close>; the arguments are the two body fields, absent ones defaulted\<close>
  "post_scan network_prefix community s =
     (if scanning (scanStatus s) then (Conflict409, s)
      else
        (let prefix = (case network_prefix of None \<Rightarrow> ''10.233.6'' | Some v \<Rightarrow> v);
             comm = (case community of None \<Rightarrow> ''public'' | Some v \<Rightarrow> v)
         in (ScanStarted prefix, scanNetworkRange_begin prefix comm s)))"

definition post_scan_cancel :: "scan_state \<Rightarrow> scan_state" where
  \<comment> \<open>\<^verbatim>\<open>POST /api/scan/cancel\<close>\<close>
  "post_scan_cancel s = s\<lparr>scanStatus := (scanStatus s)\<lparr>scanning := False\<rparr>\<rparr>"

subsection \<open>The alert a fire creates\<close>

definition firedAlert ::
  "clock \<Rightarrow> string \<Rightarrow> string \<Rightarrow> string \<Rightarrow> string option \<Rightarrow> details \<Rightarrow> alert" where
  \<comment> \<open>the record \<open>triggerAlert\<close> hands to \<open>addAlert\<close>, as stored\<close>
  "firedAlert clk ty pip nm sn d =
     newAlert clk
       \<lparr>in_type = ty, in_printerIp = pip, in_printerName = nm, in_supplyName = sn,
        in_subject = fst (alertText ty pip nm sn d), in_message = snd (alertText ty pip nm sn d),
        in_details = d\<rparr>"

subsection \<open>Example configuration and devices\<close>

definition example_config :: "string option \<Rightarrow> config" where
  \<comment> \<open>thresholds 10 and 20, 5 minutes, 4 hours; mail and one webhook set up\<close>
  "example_config schedule =
     \<lparr>email = \<lparr>e_enabled = True, e_host = ''smtp.example.org'', e_user = ''monitor'',
                e_pass = ''secret''\<rparr>,
      webhooks = [\<lparr>wh_enabled = True, wh_url = ''https://chat.example.org/hook'',
                   wh_name = ''ops''\<rparr>],
      alerts = \<lparr>a_enabled = True, lowSupplyThreshold = 20, criticalSupplyThreshold = 10,
                 offlineMinutes = 5, cooldownHours = 4, notifySchedule = schedule,
                 notifyTime = None, notifyEndTime = None, notifyDays = None\<rparr>\<rparr>"

definition clock_at :: "int \<Rightarrow> clock" where
  \<comment> \<open>a Sunday at noon, \<open>t\<close> milliseconds on\<close>
  "clock_at t = \<lparr>now_ms = t, iso = ''2024-03-03T12:00:00.000Z'', day = 0, hhmm = ''12:00''\<rparr>"

definition toner_printer :: "bool \<Rightarrow> int \<Rightarrow> int \<Rightarrow> printer" where
  \<comment> \<open>a device with one black toner at level \<open>c\<close> of \<open>m\<close>\<close>
  "toner_printer up c m =
     \<lparr>ip = ''10.0.0.7'', name = Some ''HP LaserJet'', model = Some ''HP LaserJet'',
      serial = None, status = (if up then ''idle'' else ''offline''), totalPages = Some 0,
      supplies = [\<lparr>s_name = ''Black Toner'', s_current = c, s_max = m, s_type = ''toner''\<rparr>],
      trays = [], errors = [],
      network = \<lparr>sysName = None, sysLocation = None, sysContact = None\<rparr>,
      lastUpdate = ''2024-03-03T12:00:00.000Z'', online = up\<rparr>"

definition idle_engine :: engine where
  "idle_engine =
     \<lparr>alertCooldown = Map.empty, offlineTimestamps = Map.empty, alertHistory = [], outbox = []\<rparr>"

definition unreachable_net :: snmp_net where
  \<comment> \<open>no device answers\<close>
  "unreachable_net = \<lparr>snmpGet = (\<lambda>addr oid community. None),
                       snmpWalk = (\<lambda>addr oid community. [])\<rparr>"

definition text_status_net :: snmp_net where
  \<comment> \<open>a device whose first status candidate answers with display text\<close>
  "text_status_net =
     \<lparr>snmpGet = (\<lambda>addr oid community.
         if oid = PRINTER_OIDS Description then Some ''HP LaserJet''
         else if oid = PRINTER_OIDS DeviceStatus then Some ''Ready''
         else if oid = PRINTER_OIDS StatusAlt1 then Some ''3''
         else if oid = PRINTER_OIDS TotalPages then Some ''n/a''
         else if oid = PRINTER_OIDS TotalPagesAlt1 then Some ''1234''
         else None),
      snmpWalk = (\<lambda>addr oid community. [])\<rparr>"

definition half_percent_net :: snmp_net where
  \<comment> \<open>a device that reports one toner at 29 of 200\<close>
  "half_percent_net =
     \<lparr>snmpGet = (\<lambda>addr oid community.
         if oid = PRINTER_OIDS Description then Some ''HP LaserJet'' else None),
      snmpWalk = (\<lambda>addr oid community.
         if oid = PRINTER_OIDS SupplyDesc then [''Black Toner'']
         else if oid = PRINTER_OIDS SupplyMax then [''200'']
         else if oid = PRINTER_OIDS SupplyCurrent then [''29'']
         else [])\<rparr>"

definition threshold15_config :: config where
  \<comment> \<open>the example configuration with the critical threshold set to 15\<close>
  "threshold15_config =
     (example_config None)\<lparr>alerts := (alerts (example_config None))
        \<lparr>criticalSupplyThreshold := 15\<rparr>\<rparr>"

fun run_polls :: "config \<Rightarrow> (int \<times> printer) list \<Rightarrow> engine \<Rightarrow> engine" where
  \<comment> \<open>\<open>checkAlerts\<close> after each poll of a one-device fleet, at the given times\<close>
  "run_polls cfg [] st = st"
| "run_polls cfg ((t, p) # rest) st = run_polls cfg rest (checkAlerts cfg (clock_at t) [p] st)"

section \<open>Verification\<close>

subsection \<open>Rounding\<close>

lemma js_round_quot:
  "js_round (of_int a / numeral m) = (2 * a + numeral m) div (2 * numeral m)"
proof -
  have "(of_int a / numeral m + 1 / 2 :: rat) = of_int (2 * a + numeral m) / of_int (2 * numeral m)"
    by (simp add: field_simps)
  then show ?thesis
    unfolding js_round_def by (simp only: floor_divide_of_int_eq)
qed

subsection \<open>Keeping the last entries\<close>

lemma slice_last_length: "length (slice_last n xs) \<le> n"
  by (simp add: slice_last_def)

lemma slice_last_append: "slice_last n (slice_last n xs @ ys) = slice_last n (xs @ ys)"
proof (cases "length xs \<le> n")
  case True
  then show ?thesis by (simp add: slice_last_def)
next
  case False
  then show ?thesis by (simp add: slice_last_def add.commute)
qed

lemma slice_last_short: "length xs \<le> n \<Longrightarrow> slice_last n xs = xs"
  by (simp add: slice_last_def)

subsection \<open>Doubles\<close>

lemma round_even_error: "\<bar>of_int (round_even x) - x\<bar> \<le> 1 / 2"
proof -
  define f where "f = \<lfloor>x\<rfloor>"
  define r where "r = x - of_int f"
  have r: "0 \<le> r" "r < 1" unfolding r_def f_def by linarith+
  have x: "x = of_int f + r" by (simp add: r_def)
  consider "r < 1 / 2" | "1 / 2 < r" | "r = 1 / 2" by linarith
  then show ?thesis
  proof cases
    case 1
    then have "round_even x = f" by (simp add: round_even_def Let_def f_def r_def)
    with 1 r show ?thesis by (simp add: x)
  next
    case 2
    then have "round_even x = f + 1" by (simp add: round_even_def Let_def f_def r_def)
    with 2 r show ?thesis by (simp add: x)
  next
    case 3
    then have "round_even x = f \<or> round_even x = f + 1"
      by (simp add: round_even_def Let_def f_def r_def)
    with 3 show ?thesis by (auto simp: x)
  qed
qed

lemma pow2_step: "(2::rat) powi (e + 1) = 2 powi e * 2"
  by (rule power_int_add_1) simp

lemma exp_up_spec:
  "1 \<le> q \<Longrightarrow> q < 2 ^ Suc k \<Longrightarrow> 2 powi (exp_up k q) \<le> q \<and> q < 2 powi (exp_up k q + 1)"
proof (induction k arbitrary: q)
  case 0
  then show ?case by simp
next
  case (Suc k)
  show ?case
  proof (cases "2 \<le> q")
    case True
    define e where "e = exp_up k (q / 2)"
    have "1 \<le> q / 2" "q / 2 < 2 ^ Suc k" using True Suc.prems by simp_all
    from Suc.IH [OF this]
    have ih: "2 powi e \<le> q / 2" "q / 2 < 2 powi (e + 1)"
      by (simp_all add: e_def)
    have a: "(2::rat) powi (e + 1) = 2 powi e * 2" by (rule pow2_step)
    have b: "(2::rat) powi (e + 1 + 1) = 2 powi (e + 1) * 2" by (rule pow2_step)
    have "exp_up (Suc k) q = e + 1" using True by (simp add: e_def)
    moreover have "2 powi (e + 1) \<le> q" using ih(1) a by linarith
    moreover have "q < 2 powi (e + 1 + 1)" using ih(2) b by linarith
    ultimately show ?thesis by (simp only:)
  next
    case False
    with Suc.prems show ?thesis by simp
  qed
qed

lemma exp_down_spec:
  "0 < q \<Longrightarrow> q < 2 \<Longrightarrow> 1 \<le> q * 2 ^ k
     \<Longrightarrow> 2 powi (exp_down k q) \<le> q \<and> q < 2 powi (exp_down k q + 1)"
proof (induction k arbitrary: q)
  case 0
  then show ?case by simp
next
  case (Suc k)
  show ?case
  proof (cases "q < 1")
    case True
    have "0 < q * 2" "q * 2 < 2" "1 \<le> q * 2 * 2 ^ k"
      using True Suc.prems by (simp_all add: mult.assoc)
    from Suc.IH [OF this]
    have a: "2 powi (exp_down k (q * 2)) \<le> q * 2" and b: "q * 2 < 2 powi (exp_down k (q * 2) + 1)"
      by simp_all
    define e where "e = exp_down k (q * 2)"
    have s1: "(2::rat) powi e = 2 powi (e - 1) * 2"
      using pow2_step [of "e - 1"] by simp
    have s2: "(2::rat) powi (e + 1) = 2 powi e * 2"
      by (rule pow2_step)
    have "exp_down (Suc k) q = e - 1" using True by (simp add: e_def)
    moreover have "2 powi (e - 1) \<le> q" using a s1 unfolding e_def [symmetric] by linarith
    moreover have "q < 2 powi (e - 1 + 1)" using b s2 unfolding e_def [symmetric] by simp
    ultimately show ?thesis by (simp only:)
  next
    case False
    with Suc.prems show ?thesis by simp
  qed
qed

lemma nat_le_pow2: "(of_nat n :: rat) + 1 \<le> 2 ^ n"
proof (induction n)
  case 0
  show ?case by simp
next
  case (Suc n)
  have "(1::rat) \<le> 2 ^ n" by simp
  with Suc show ?case by simp
qed

lemma nat_less_pow2: "(of_nat n :: rat) + 1 \<le> 2 ^ Suc n"
proof -
  have "(2::rat) ^ n \<le> 2 ^ Suc n" by simp
  with nat_le_pow2 [of n] show ?thesis by linarith
qed

lemma binary_exponent_spec:
  assumes "0 < q"
  shows "2 powi (binary_exponent q) \<le> q \<and> q < 2 powi (binary_exponent q + 1)"
proof (cases "1 \<le> q")
  case True
  define n where "n = nat \<lfloor>q\<rfloor>"
  have "q < of_int \<lfloor>q\<rfloor> + 1" by linarith
  moreover have "of_int \<lfloor>q\<rfloor> = (of_nat n :: rat)"
    using True by (simp add: n_def)
  ultimately have "q < of_nat n + 1" by simp
  with nat_less_pow2 [of n] have "q < 2 ^ Suc n" by linarith
  from exp_up_spec [OF True this] True show ?thesis
    by (simp add: binary_exponent_def n_def)
next
  case False
  define n where "n = nat \<lceil>1 / q\<rceil>"
  have "1 / q \<le> of_int \<lceil>1 / q\<rceil>" by linarith
  moreover have "0 < 1 / q" using assms by simp
  ultimately have "0 \<le> \<lceil>1 / q\<rceil>" by linarith
  then have "of_int \<lceil>1 / q\<rceil> = (of_nat n :: rat)" by (simp add: n_def)
  with \<open>1 / q \<le> of_int \<lceil>1 / q\<rceil>\<close> have "1 / q \<le> of_nat n" by simp
  with nat_le_pow2 [of n] have "1 / q \<le> 2 ^ n" by linarith
  then have "1 \<le> q * 2 ^ n" using assms by (simp add: field_simps)
  from exp_down_spec [OF assms _ this] False show ?thesis
    by (simp add: binary_exponent_def n_def)
qed

lemma to_double_error: "\<bar>to_double q - q\<bar> \<le> \<bar>q\<bar> / 2 ^ 53"
proof (cases "q = 0")
  case True
  then show ?thesis by (simp add: to_double_def)
next
  case False
  define e where "e = binary_exponent \<bar>q\<bar>"
  define u where "u = (2::rat) powi (e - 52)"
  have pos: "0 < u" by (simp add: u_def)
  have lo: "2 powi e \<le> \<bar>q\<bar>"
    using binary_exponent_spec [of "\<bar>q\<bar>"] False by (simp add: e_def)
  have ue: "u = 2 powi e / 2 ^ 52"
    unfolding u_def by (subst power_int_diff) simp_all
  have td: "to_double q = of_int (round_even (q / u)) * u"
    using False by (simp add: to_double_def Let_def u_def e_def)
  have "to_double q - q = (of_int (round_even (q / u)) - q / u) * u"
    using pos by (simp add: td field_simps)
  then have "\<bar>to_double q - q\<bar> = \<bar>of_int (round_even (q / u)) - q / u\<bar> * u"
    using pos by (simp add: abs_mult)
  also have "\<dots> \<le> 1 / 2 * u"
    using round_even_error [of "q / u"] pos by (intro mult_right_mono) simp_all
  also have "\<dots> = 2 powi e / 2 ^ 53" by (simp add: ue)
  also have "\<dots> \<le> \<bar>q\<bar> / 2 ^ 53" using lo by (simp add: divide_right_mono)
  finally show ?thesis .
qed

lemma double_percent_error:
  "\<bar>double_mul (double_div a b) 100 - a / b * 100\<bar> \<le> \<bar>a / b * 100\<bar> / 2 ^ 51"
proof -
  define q where "q = a / b"
  define x1 where "x1 = to_double q"
  define x where "x = to_double (x1 * 100)"
  have e1: "\<bar>x1 - q\<bar> \<le> \<bar>q\<bar> / 9007199254740992"
    using to_double_error [of q] by (simp add: x1_def)
  have e2: "\<bar>x - x1 * 100\<bar> \<le> \<bar>x1\<bar> * 100 / 9007199254740992"
    using to_double_error [of "x1 * 100"] by (simp add: x_def abs_mult)
  have "\<bar>x - q * 100\<bar> \<le> \<bar>q\<bar> * 100 / 2251799813685248"
    using e1 e2 by linarith
  then have "\<bar>x - q * 100\<bar> \<le> \<bar>q * 100\<bar> / 2 ^ 51"
    by (simp add: abs_mult)
  then show ?thesis
    by (simp only: x_def x1_def q_def double_mul_def double_div_def)
qed

lemma percent_values:
  "js_round (double_mul (double_div 25 100) 100) = 25"
  "js_round (double_mul (double_div 15 100) 100) = 15"
  "js_round (double_mul (double_div 8 100) 100) = 8"
  "js_round (double_mul (double_div 50 100) 100) = 50"
  "js_round (double_mul (double_div 30 200) 100) = 15"
  "js_round (double_mul (double_div 18 200) 100) = 9"
  "js_round (double_mul (double_div 40 200) 100) = 20"
  "js_round (double_mul (double_div 29 200) 100) = 14"
  "js_round (double_mul (double_div 1 200) 100) = 1"
  by code_simp+

subsection \<open>Firing and suppression\<close>

lemma triggerAlert_suppressed:
  assumes "isInCooldown cfg clk (cooldownKey pip ty sn) st"
  shows "triggerAlert cfg clk ty pip nm sn d st = (None, st)"
  using assms by (simp add: triggerAlert_def)

lemma triggerAlert_fired:
  assumes "\<not> isInCooldown cfg clk (cooldownKey pip ty sn) st"
  shows "triggerAlert cfg clk ty pip nm sn d st =
    (Some (firedAlert clk ty pip nm sn d),
     st\<lparr>alertHistory := slice_last 1000 (alertHistory st @ [firedAlert clk ty pip nm sn d]),
        alertCooldown := (alertCooldown st)(cooldownKey pip ty sn \<mapsto> now_ms clk),
        outbox := outbox st @
          (if a_enabled (alerts cfg)
           then sendEmailNotification cfg clk (fst (alertText ty pip nm sn d))
                  (snd (alertText ty pip nm sn d)) ty
                @ sendWebhookNotification cfg (fst (alertText ty pip nm sn d))
                  (snd (alertText ty pip nm sn d)) ty
           else [])\<rparr>)"
  using assms
  by (simp add: triggerAlert_def firedAlert_def addAlert_def saveAlertHistory_def
      setCooldown_def Let_def split: prod.splits)


lemma firedAlert_fields:
  "a_type (firedAlert clk ty pip nm sn d) = ty"
  "a_printerIp (firedAlert clk ty pip nm sn d) = pip"
  "a_printerName (firedAlert clk ty pip nm sn d) = nm"
  "a_supplyName (firedAlert clk ty pip nm sn d) = sn"
  "a_details (firedAlert clk ty pip nm sn d) = d"
  "acknowledged (firedAlert clk ty pip nm sn d) = False"
  by (simp_all add: firedAlert_def newAlert_def)

lemma downtimeStr_int:
  "downtimeStr dt =
     (if dt > 3600000 then show_int ((2 * dt + 3600000) div 7200000) @ '' hours''
      else show_int ((2 * dt + 60000) div 120000) @ '' minutes'')"
  unfolding downtimeStr_def by (simp only: js_round_quot) simp

lemmas eval_defs = example_config_def clock_at_def toner_printer_def idle_engine_def
  checkAlerts_def checkPrinter_def checkSupply_def checkOffline_def checkRecovery_def
  offlineThresholdMs_def downtimeStr_int show_int_def show_nat.simps digit_char_def
  supplyPercentage_def percent_values toLowerCase_def lower_char_def is_upper_def triggerAlert_def
  isInCooldown_def cooldownKey_def alertText_def addAlert_def newAlert_def
  saveAlertHistory_def slice_last_def setCooldown_def Let_def no_details_def or_default_def
  truthy_def cooldownMs_def firedAlert_def



subsection \<open>Offline timers\<close>

lemma triggerAlert_timers:
  "offlineTimestamps (snd (triggerAlert cfg clk ty pip nm sn d st)) = offlineTimestamps st"
proof (cases "isInCooldown cfg clk (cooldownKey pip ty sn) st")
  case True
  then show ?thesis by (simp add: triggerAlert_suppressed)
next
  case False
  then show ?thesis by (simp add: triggerAlert_fired)
qed

lemma checkSupply_timers:
  "offlineTimestamps (checkSupply cfg clk p sp st) = offlineTimestamps st"
  by (simp add: checkSupply_def Let_def triggerAlert_timers)

lemma supply_loop_timers:
  "offlineTimestamps (foldl (\<lambda>acc sp. checkSupply cfg clk p sp acc) st sps)
     = offlineTimestamps st"
  by (induction sps arbitrary: st) (simp_all add: checkSupply_timers)

lemma checkRecovery_timer:
  "offlineTimestamps (checkRecovery cfg clk p st) (ip p) = None"
  by (simp add: checkRecovery_def Let_def split: option.splits)

lemma recovery_key_differs:
  "cooldownKey pip ''back-online'' None \<noteq> cooldownKey pip ''offline'' None"
  by (simp add: cooldownKey_def)

text \<open>
  C3 (as amended). A device that is not online gets an offline timer at its first such
  evaluation, and later evaluations keep the timer's start, whether they fire or not. An
  \<open>offline\<close> alert is created exactly when the timer is at least the offline threshold
  old and the device's \<open>offline\<close> key is not in cooldown. When the device is online again
  and a timer exists, the timer is deleted, and a \<open>back-online\<close> alert with the downtime
  (now minus timer start) is created exactly when the device's own \<open>back-online\<close> key is
  not in cooldown; that key differs from the \<open>offline\<close> key, so the cooldown of the
  offline alert does not suppress it.
\<close>

theorem offline_recovery_alerts:
  "(let key_off = cooldownKey (ip p) ''offline'' None;
        key_on = cooldownKey (ip p) ''back-online'' None;
        who = or_default (name p) (ip p)
    in ((\<not> online p \<or> status p = ''offline'') \<longrightarrow>
          (let st' = checkPrinter cfg clk p st;
               t0 = (case offlineTimestamps st (ip p) of None \<Rightarrow> now_ms clk | Some t \<Rightarrow> t)
           in offlineTimestamps st' (ip p) = Some t0
              \<and> (if now_ms clk - t0 \<ge> offlineThresholdMs cfg \<and> \<not> isInCooldown cfg clk key_off st
                  then alertHistory st' =
                         slice_last 1000 (alertHistory st @
                           [firedAlert clk ''offline'' (ip p) who None
                              (no_details\<lparr>lastSeen := Some (lastUpdate p)\<rparr>)])
                       \<and> alertCooldown st' key_off = Some (now_ms clk)
                  else alertHistory st' = alertHistory st
                       \<and> alertCooldown st' = alertCooldown st)))
       \<and> (online p \<and> status p \<noteq> ''offline'' \<longrightarrow>
            (\<forall>t0. offlineTimestamps st (ip p) = Some t0 \<longrightarrow>
               (let st' = checkRecovery cfg clk p st
                in offlineTimestamps st' (ip p) = None
                   \<and> offlineTimestamps (checkPrinter cfg clk p st) (ip p) = None
                   \<and> (if \<not> isInCooldown cfg clk key_on st
                       then alertHistory st' =
                              slice_last 1000 (alertHistory st @
                                [firedAlert clk ''back-online'' (ip p) who None
                                   (no_details\<lparr>downtime := Some (downtimeStr (now_ms clk - t0))\<rparr>)])
                       else alertHistory st' = alertHistory st))))
       \<and> key_on \<noteq> key_off)"
proof -
  let ?koff = "cooldownKey (ip p) ''offline'' None"
  let ?kon = "cooldownKey (ip p) ''back-online'' None"
  have off: "?thesis" if down: "\<not> online p \<or> status p = ''offline''"
  proof -
    have cp: "checkPrinter cfg clk p st = checkOffline cfg clk p st"
      using down by (auto simp: checkPrinter_def)
    show ?thesis
    proof (cases "offlineTimestamps st (ip p)")
      case None
      let ?st1 = "st\<lparr>offlineTimestamps := (offlineTimestamps st)(ip p \<mapsto> now_ms clk)\<rparr>"
      have cd: "isInCooldown cfg clk ?koff ?st1 = isInCooldown cfg clk ?koff st"
        by (simp add: isInCooldown_def)
      show ?thesis
      proof (cases "isInCooldown cfg clk ?koff st")
        case True
        with None down cd show ?thesis
          by (simp add: cp checkOffline_def Let_def triggerAlert_suppressed recovery_key_differs)
      next
        case False
        with None down cd show ?thesis
          by (simp add: cp checkOffline_def Let_def triggerAlert_fired recovery_key_differs)
      qed
    next
      case (Some t)
      show ?thesis
      proof (cases "isInCooldown cfg clk ?koff st")
        case True
        with Some down show ?thesis
          by (simp add: cp checkOffline_def Let_def triggerAlert_suppressed recovery_key_differs)
      next
        case False
        with Some down show ?thesis
          by (simp add: cp checkOffline_def Let_def triggerAlert_fired recovery_key_differs)
      qed
    qed
  qed
  have on: "?thesis" if up: "online p \<and> status p \<noteq> ''offline''"
  proof -
    have cp: "checkPrinter cfg clk p st =
        foldl (\<lambda>acc sp. checkSupply cfg clk p sp acc) (checkRecovery cfg clk p st) (supplies p)"
      using up by (simp add: checkPrinter_def)
    have tm: "offlineTimestamps (checkPrinter cfg clk p st) (ip p) = None"
      by (simp add: cp supply_loop_timers checkRecovery_timer)
    show ?thesis
    proof (cases "isInCooldown cfg clk ?kon st")
      case True
      with up tm show ?thesis
        by (simp add: checkRecovery_def Let_def triggerAlert_suppressed recovery_key_differs)
    next
      case False
      with up tm show ?thesis
        by (simp add: checkRecovery_def Let_def triggerAlert_fired recovery_key_differs)
    qed
  qed
  from off on show ?thesis by blast
qed


theorem offline_recovery_alerts_witness:
  "(let cfg = example_config None;
        down = toner_printer False 50 100;
        up = toner_printer True 50 100;
        st11 = run_polls cfg
                [(0, down), (60000, down), (120000, down), (180000, down), (240000, down),
                 (300000, down), (360000, down), (420000, down), (480000, down),
                 (540000, down), (600000, down), (660000, down)] idle_engine
    in map a_type (alertHistory st11) = [''offline'']
       \<and> map a_id (alertHistory st11) = [''300000'']
       \<and> offlineTimestamps st11 ''10.0.0.7'' = Some 0
       \<and> online up \<and> status up \<noteq> ''offline''
       \<and> map a_type (alertHistory (checkRecovery cfg (clock_at 720000) up st11))
            = [''offline'', ''back-online'']
       \<and> map (\<lambda>a. downtime (a_details a))
            (alertHistory (checkRecovery cfg (clock_at 720000) up st11))
            = [None, Some ''12 minutes'']
       \<and> offlineTimestamps (checkPrinter cfg (clock_at 720000) up st11) ''10.0.0.7'' = None)"
proof -
  define st11 where "st11 = run_polls (example_config None)
     [(0, toner_printer False 50 100), (60000, toner_printer False 50 100),
      (120000, toner_printer False 50 100), (180000, toner_printer False 50 100),
      (240000, toner_printer False 50 100), (300000, toner_printer False 50 100),
      (360000, toner_printer False 50 100), (420000, toner_printer False 50 100),
      (480000, toner_printer False 50 100), (540000, toner_printer False 50 100),
      (600000, toner_printer False 50 100), (660000, toner_printer False 50 100)] idle_engine"
  have ty: "map a_type (alertHistory st11) = [''offline'']"
    unfolding st11_def by (simp add: eval_defs)
  have ids: "map a_id (alertHistory st11) = [''300000'']"
    unfolding st11_def by (simp add: eval_defs)
  have dts: "map (\<lambda>a. downtime (a_details a)) (alertHistory st11) = [None]"
    unfolding st11_def by (simp add: eval_defs)
  have tm: "offlineTimestamps st11 ''10.0.0.7'' = Some 0"
    unfolding st11_def by (simp add: eval_defs)
  have cd: "\<not> isInCooldown (example_config None) (clock_at 720000)
              (cooldownKey ''10.0.0.7'' ''back-online'' None) st11"
    unfolding st11_def by (simp add: eval_defs)
  have len: "length (alertHistory st11) = 1"
    using ty by (metis length_map length_Cons list.size(3) One_nat_def)
  have up: "online (toner_printer True 50 100) \<and> status (toner_printer True 50 100) \<noteq> ''offline''"
    by (simp add: toner_printer_def)
  have ipn: "ip (toner_printer True 50 100) = ''10.0.0.7''"
    "or_default (name (toner_printer True 50 100)) ''10.0.0.7'' = ''HP LaserJet''"
    by (simp_all add: toner_printer_def or_default_def truthy_def)
  have rec: "alertHistory (checkRecovery (example_config None) (clock_at 720000)
                 (toner_printer True 50 100) st11)
               = slice_last 1000 (alertHistory st11 @
                   [firedAlert (clock_at 720000) ''back-online'' ''10.0.0.7'' ''HP LaserJet'' None
                      (no_details\<lparr>downtime := Some (downtimeStr (now_ms (clock_at 720000) - 0))\<rparr>)])
             \<and> offlineTimestamps (checkPrinter (example_config None) (clock_at 720000)
                   (toner_printer True 50 100) st11) ''10.0.0.7'' = None"
    using offline_recovery_alerts [where p = "toner_printer True 50 100"
        and cfg = "example_config None" and clk = "clock_at 720000" and st = st11]
      up tm cd
    by (simp add: Let_def ipn)
  have dstr: "downtimeStr (now_ms (clock_at 720000)) = ''12 minutes''"
    by (simp add: clock_at_def downtimeStr_int show_int_def show_nat.simps digit_char_def)
  show ?thesis
    unfolding Let_def st11_def [symmetric]
    using ty ids dts tm up rec len
    by (simp add: slice_last_def firedAlert_fields dstr no_details_def)
qed

text \<open>
  The claim as stated fails: a device that recovered once (the \<open>back-online\<close> alert of
  minute 10 starts that key's cooldown), went offline again at minute 20 and stayed offline
  for 12 minutes, past the threshold of 5, gets no \<open>back-online\<close> alert at its second
  recovery; the timer is deleted all the same.
\<close>

theorem back_online_counterexample:
  "(let cfg = example_config None;
        down = toner_printer False 50 100;
        up = toner_printer True 50 100;
        st = run_polls cfg
               [(0, down), (300000, down), (600000, up), (1200000, down), (1560000, down)]
               idle_engine;
        st' = checkAlerts cfg (clock_at 1920000) [up] st
    in map a_type (alertHistory st) = [''offline'', ''back-online'']
       \<and> offlineTimestamps st ''10.0.0.7'' = Some 1200000
       \<and> 1920000 - 1200000 \<ge> offlineThresholdMs cfg
       \<and> alertHistory st' = alertHistory st
       \<and> outbox st' = outbox st
       \<and> offlineTimestamps st' ''10.0.0.7'' = None)"
  by (simp add: eval_defs)


subsection \<open>Notification schedule\<close>

text \<open>
  C4 (what the code does). When alerts are enabled, the key is not in cooldown and the
  current time is outside the notification schedule, the alert event is still created and
  stored, no mail is attempted, and a post is attempted for every enabled webhook that has a
  URL: the schedule gates the mail only, not the webhooks.
\<close>

theorem schedule_gates_email_only:
  assumes "a_enabled (alerts cfg)"
    and "\<not> isInCooldown cfg clk (cooldownKey pip ty sn) st"
    and "\<not> isWithinNotificationSchedule cfg clk"
    and "ty \<noteq> ''report''"
  shows "(let res = triggerAlert cfg clk ty pip nm sn d st;
              subj = fst (alertText ty pip nm sn d);
              msg = snd (alertText ty pip nm sn d)
          in fst res = Some (firedAlert clk ty pip nm sn d)
             \<and> alertHistory (snd res)
                 = slice_last 1000 (alertHistory st @ [firedAlert clk ty pip nm sn d])
             \<and> sendEmailNotification cfg clk subj msg ty = []
             \<and> outbox (snd res)
                 = outbox st @ map (\<lambda>wh. Webhook (wh_url wh) subj msg ty)
                     (filter (\<lambda>wh. wh_enabled wh \<and> wh_url wh \<noteq> []) (webhooks cfg)))"
  using assms
  by (simp add: triggerAlert_fired Let_def sendEmailNotification_def sendWebhookNotification_def)

theorem schedule_gates_email_only_witness:
  "(let cfg = example_config (Some ''business-hours'');
        clk = clock_at 0;
        res = triggerAlert cfg clk ''offline'' ''10.0.0.7'' ''HP LaserJet'' None no_details
                idle_engine
    in a_enabled (alerts cfg) \<and> e_enabled (email cfg)
       \<and> day clk = 0 \<and> \<not> isWithinNotificationSchedule cfg clk
       \<and> map a_type (alertHistory (snd res)) = [''offline'']
       \<and> outbox (snd res)
          = [Webhook ''https://chat.example.org/hook'' ''Offline: HP LaserJet''
               (snd (alertText ''offline'' ''10.0.0.7'' ''HP LaserJet'' None no_details))
               ''offline''])"
proof -
  have h1: "a_enabled (alerts (example_config (Some ''business-hours'')))"
    by (simp add: example_config_def)
  have h2: "\<not> isInCooldown (example_config (Some ''business-hours'')) (clock_at 0)
              (cooldownKey ''10.0.0.7'' ''offline'' None) idle_engine"
    by (simp add: isInCooldown_def idle_engine_def)
  have h3: "\<not> isWithinNotificationSchedule (example_config (Some ''business-hours'')) (clock_at 0)"
    by (simp add: isWithinNotificationSchedule_def example_config_def clock_at_def
        or_default_def truthy_def Let_def)
  have h4: "''offline'' \<noteq> ''report''" by simp
  show ?thesis
    using schedule_gates_email_only [OF h1 h2 h3 h4, of "''HP LaserJet''" no_details] h3
    by (simp add: Let_def example_config_def clock_at_def idle_engine_def slice_last_def
        firedAlert_fields alertText_def)
qed

subsection \<open>Acknowledging one alert\<close>

lemma find_mark_first:
  "find (\<lambda>a. a_id a = alertId) stored = Some a0 \<Longrightarrow>
   acknowledgeAlert clk alertId who stored
     = (Some (a0\<lparr>acknowledged := True, acknowledgedAt := Some (iso clk),
                 acknowledgedBy := Some who\<rparr>),
        saveAlertHistory (mark_first alertId
          (\<lambda>a. a\<lparr>acknowledged := True, acknowledgedAt := Some (iso clk),
                  acknowledgedBy := Some who\<rparr>) stored))"
  by (simp add: acknowledgeAlert_def Let_def)

text \<open>
  The route that acknowledges one alert marks it acknowledged and deletes the cooldown entry
  whose key is built from that alert's address, type and supply name, and no other entry.
  After that, a trigger of the same type for the same device and supply is not suppressed,
  whatever the time: the new event is created and the key's cooldown starts again.
\<close>

lemma acknowledge_one_rearms:
  assumes "find (\<lambda>a. a_id a = alertId) (alertHistory st) = Some a0"
  shows "(let resp = fst (post_acknowledge clk alertId who st);
              st' = snd (post_acknowledge clk alertId who st);
              key = cooldownKey (a_printerIp a0) (a_type a0) (a_supplyName a0)
          in resp = AckOk (a0\<lparr>acknowledged := True, acknowledgedAt := Some (iso clk),
                              acknowledgedBy := Some who\<rparr>)
             \<and> alertCooldown st' key = None
             \<and> (\<forall>k. k \<noteq> key \<longrightarrow> alertCooldown st' k = alertCooldown st k)
             \<and> (\<forall>cfg clk' nm d.
                   fst (triggerAlert cfg clk' (a_type a0) (a_printerIp a0) nm (a_supplyName a0) d st')
                     = Some (firedAlert clk' (a_type a0) (a_printerIp a0) nm (a_supplyName a0) d)
                   \<and> alertCooldown
                       (snd (triggerAlert cfg clk' (a_type a0) (a_printerIp a0) nm
                               (a_supplyName a0) d st')) key = Some (now_ms clk')))"
proof -
  let ?key = "cooldownKey (a_printerIp a0) (a_type a0) (a_supplyName a0)"
  let ?a = "a0\<lparr>acknowledged := True, acknowledgedAt := Some (iso clk), acknowledgedBy := Some who\<rparr>"
  obtain stored where pa: "post_acknowledge clk alertId who st =
      (AckOk ?a, clearCooldown ?key (st\<lparr>alertHistory := stored\<rparr>))"
    using find_mark_first [OF assms, of clk who] by (simp add: post_acknowledge_def)
  have none: "alertCooldown (snd (post_acknowledge clk alertId who st)) ?key = None"
    by (simp add: pa clearCooldown_def)
  have others: "\<forall>k. k \<noteq> ?key \<longrightarrow>
      alertCooldown (snd (post_acknowledge clk alertId who st)) k = alertCooldown st k"
    by (simp add: pa clearCooldown_def)
  define st' where "st' = snd (post_acknowledge clk alertId who st)"
  have free: "\<not> isInCooldown cfg clk' ?key st'" for cfg clk'
    using none by (simp add: isInCooldown_def st'_def)
  have fired: "fst (triggerAlert cfg clk' (a_type a0) (a_printerIp a0) nm (a_supplyName a0) d st')
                 = Some (firedAlert clk' (a_type a0) (a_printerIp a0) nm (a_supplyName a0) d)
               \<and> alertCooldown
                   (snd (triggerAlert cfg clk' (a_type a0) (a_printerIp a0) nm
                           (a_supplyName a0) d st')) ?key = Some (now_ms clk')"
    for cfg clk' nm d
    by (simp add: triggerAlert_fired [OF free])
  have resp: "fst (post_acknowledge clk alertId who st) = AckOk ?a"
    by (simp add: pa)
  show ?thesis
    unfolding Let_def st'_def [symmetric]
    using none others fired resp by (simp add: st'_def)
qed

lemma acknowledge_one_rearms_example:
  "(let cfg = example_config None;
        st3 = run_polls cfg
                [(0, toner_printer True 25 100), (60000, toner_printer True 15 100),
                 (120000, toner_printer True 8 100), (180000, toner_printer True 8 100)]
                idle_engine;
        st4 = snd (post_acknowledge (clock_at 180500) ''120000'' ''user'' st3)
    in map a_id (alertHistory st3) = [''60000'', ''120000'']
       \<and> map a_type (alertHistory st3) = [''low-supply'', ''critical-supply'']
       \<and> alertCooldown st3 ''10.0.0.7-critical-supply-Black Toner'' = Some 120000
       \<and> alertCooldown st4 ''10.0.0.7-critical-supply-Black Toner'' = None
       \<and> map acknowledged (alertHistory st4) = [False, True]
       \<and> alertCooldown st4 ''10.0.0.7-low-supply-Black Toner'' = Some 60000
       \<and> map a_type (alertHistory (run_polls cfg [(181000, toner_printer True 8 100)] st4))
          = [''low-supply'', ''critical-supply'', ''critical-supply''])"
proof -
  define st3 where "st3 = run_polls (example_config None)
                [(0, toner_printer True 25 100), (60000, toner_printer True 15 100),
                 (120000, toner_printer True 8 100), (180000, toner_printer True 8 100)]
                idle_engine"
  let ?low = "firedAlert (clock_at 60000) ''low-supply'' ''10.0.0.7'' ''HP LaserJet''
                (Some ''Black Toner'') (no_details\<lparr>percentage := Some 15\<rparr>)"
  let ?crit = "firedAlert (clock_at 120000) ''critical-supply'' ''10.0.0.7'' ''HP LaserJet''
                (Some ''Black Toner'') (no_details\<lparr>percentage := Some 8\<rparr>)"
  have hist: "alertHistory st3 = [?low, ?crit]"
    unfolding st3_def by (simp add: eval_defs)
  have ids: "a_id ?low = ''60000''" "a_id ?crit = ''120000''"
    by (simp_all add: firedAlert_def newAlert_def clock_at_def show_int_def show_nat.simps
        digit_char_def)
  have h: "find (\<lambda>a. a_id a = ''120000'') (alertHistory st3) = Some ?crit"
    by (simp add: hist ids)
  have c4: "alertCooldown (snd (post_acknowledge (clock_at 180500) ''120000'' ''user'' st3))
              ''10.0.0.7-critical-supply-Black Toner'' = None"
    using acknowledge_one_rearms [OF h, of "clock_at 180500" "''user''"]
    by (simp add: Let_def firedAlert_fields cooldownKey_def)
  have c1: "map a_id (alertHistory st3) = [''60000'', ''120000'']"
    by (simp add: hist ids)
  have c2: "map a_type (alertHistory st3) = [''low-supply'', ''critical-supply'']"
    by (simp add: hist firedAlert_fields)
  have c3: "alertCooldown st3 ''10.0.0.7-critical-supply-Black Toner'' = Some 120000"
    unfolding st3_def by (simp add: eval_defs)
  have c5: "map acknowledged (alertHistory
              (snd (post_acknowledge (clock_at 180500) ''120000'' ''user'' st3))) = [False, True]"
    by (simp add: post_acknowledge_def acknowledgeAlert_def Let_def clearCooldown_def
        saveAlertHistory_def slice_last_def hist ids firedAlert_fields)
  have c6: "alertCooldown (snd (post_acknowledge (clock_at 180500) ''120000'' ''user'' st3))
              ''10.0.0.7-low-supply-Black Toner'' = Some 60000"
    unfolding st3_def
    by (simp add: eval_defs post_acknowledge_def acknowledgeAlert_def clearCooldown_def)
  have c7: "map a_type (alertHistory (run_polls (example_config None)
              [(181000, toner_printer True 8 100)]
              (snd (post_acknowledge (clock_at 180500) ''120000'' ''user'' st3))))
            = [''low-supply'', ''critical-supply'', ''critical-supply'']"
    unfolding st3_def
    by (simp add: eval_defs post_acknowledge_def acknowledgeAlert_def clearCooldown_def)
  show ?thesis
    unfolding Let_def st3_def [symmetric]
    using c1 c2 c3 c4 c5 c6 c7 by blast
qed

subsection \<open>Acknowledging all alerts\<close>

lemma mark_first_absent:
  "\<forall>z \<in> set zs. a_id z \<noteq> i \<Longrightarrow> mark_first i f zs = zs"
  by (induction zs) auto

lemma mark_first_distinct:
  "distinct (map a_id zs) \<Longrightarrow>
   mark_first i f zs = map (\<lambda>z. if a_id z = i then f z else z) zs"
proof (induction zs)
  case Nil
  show ?case by simp
next
  case (Cons a zs)
  show ?case
  proof (cases "a_id a = i")
    case True
    from Cons.prems have "a_id a \<notin> a_id ` set zs" by simp
    with True have "\<forall>z \<in> set zs. a_id z \<noteq> i" by (metis image_eqI)
    then have "map (\<lambda>z. if a_id z = i then f z else z) zs = zs"
      by (induction zs) auto
    with True show ?thesis by simp
  next
    case False
    with Cons show ?thesis by simp
  qed
qed

lemma acknowledgeAlert_distinct:
  assumes "distinct (map a_id zs)" and "length zs \<le> 1000"
  shows "snd (acknowledgeAlert clk i who zs)
           = map (\<lambda>z. if a_id z = i then z\<lparr>acknowledged := True, acknowledgedAt := Some (iso clk), acknowledgedBy := Some who\<rparr> else z) zs"
proof (cases "find (\<lambda>a. a_id a = i) zs")
  case None
  then have no: "\<forall>z \<in> set zs. a_id z \<noteq> i" by (simp add: find_None_iff)
  then have "map (\<lambda>z. if a_id z = i then z\<lparr>acknowledged := True, acknowledgedAt := Some (iso clk), acknowledgedBy := Some who\<rparr> else z) zs = zs"
    by (induction zs) auto
  with None show ?thesis by (simp add: acknowledgeAlert_def Let_def)
next
  case (Some a)
  have len: "length (map (\<lambda>z. if a_id z = i then z\<lparr>acknowledged := True, acknowledgedAt := Some (iso clk), acknowledgedBy := Some who\<rparr> else z) zs) \<le> 1000"
    using assms(2) by simp
  have "snd (acknowledgeAlert clk i who zs)
          = saveAlertHistory (mark_first i
              (\<lambda>z. z\<lparr>acknowledged := True, acknowledgedAt := Some (iso clk), acknowledgedBy := Some who\<rparr>) zs)"
    using Some by (simp add: acknowledgeAlert_def Let_def)
  also have "\<dots> = slice_last 1000 (map (\<lambda>z. if a_id z = i then z\<lparr>acknowledged := True, acknowledgedAt := Some (iso clk), acknowledgedBy := Some who\<rparr> else z) zs)"
    by (simp add: saveAlertHistory_def mark_first_distinct [OF assms(1)])
  also have "\<dots> = map (\<lambda>z. if a_id z = i then z\<lparr>acknowledged := True, acknowledgedAt := Some (iso clk), acknowledgedBy := Some who\<rparr> else z) zs"
    using len by (rule slice_last_short)
  finally show ?thesis .
qed

lemma ack_all_loop:
  assumes "distinct (map a_id zs)" and "length zs \<le> 1000"
    and "\<forall>z \<in> set zs. acknowledged z \<or> (\<exists>y \<in> set ys. a_id y = a_id z \<and> \<not> acknowledged y)"
  shows "list_all acknowledged
           (fst (foldl (\<lambda>(stored, count) a.
                     if \<not> acknowledged a
                     then (snd (acknowledgeAlert clk (a_id a) ''user'' stored), count + 1)
                     else (stored, count)) (zs, n :: nat) ys))
       \<and> map a_id
           (fst (foldl (\<lambda>(stored, count) a.
                     if \<not> acknowledged a
                     then (snd (acknowledgeAlert clk (a_id a) ''user'' stored), count + 1)
                     else (stored, count)) (zs, n :: nat) ys)) = map a_id zs"
  using assms
proof (induction ys arbitrary: zs n)
  case Nil
  then show ?case by (simp add: list_all_iff)
next
  case (Cons y ys)
  show ?case
  proof (cases "acknowledged y")
    case True
    have inv: "\<forall>z \<in> set zs. acknowledged z
                 \<or> (\<exists>y' \<in> set ys. a_id y' = a_id z \<and> \<not> acknowledged y')"
      using Cons.prems(3) True by auto
    from Cons.IH [OF Cons.prems(1) Cons.prems(2) inv, of n] True
    show ?thesis by simp
  next
    case False
    define zs' where "zs' = map (\<lambda>z. if a_id z = a_id y then z\<lparr>acknowledged := True, acknowledgedAt := Some (iso clk), acknowledgedBy := Some ''user''\<rparr> else z) zs"
    have step: "snd (acknowledgeAlert clk (a_id y) ''user'' zs) = zs'"
      unfolding zs'_def by (rule acknowledgeAlert_distinct [OF Cons.prems(1) Cons.prems(2)])
    have ids: "map a_id zs' = map a_id zs"
      by (simp add: zs'_def comp_def cong: map_cong)
    have d: "distinct (map a_id zs')" using Cons.prems(1) ids by simp
    have l: "length zs' \<le> 1000" using Cons.prems(2) by (simp add: zs'_def)
    have inv: "\<forall>z \<in> set zs'. acknowledged z
                 \<or> (\<exists>y' \<in> set ys. a_id y' = a_id z \<and> \<not> acknowledged y')"
    proof
      fix z' assume "z' \<in> set zs'"
      then obtain z where z: "z \<in> set zs"
        and z': "z' = (if a_id z = a_id y then z\<lparr>acknowledged := True, acknowledgedAt := Some (iso clk), acknowledgedBy := Some ''user''\<rparr> else z)"
        by (auto simp: zs'_def)
      show "acknowledged z' \<or> (\<exists>y' \<in> set ys. a_id y' = a_id z' \<and> \<not> acknowledged y')"
      proof (cases "a_id z = a_id y")
        case True
        with z' show ?thesis by simp
      next
        case ne: False
        with z' have eq: "z' = z" by simp
        from Cons.prems(3) z have "acknowledged z
            \<or> (\<exists>y' \<in> set (y # ys). a_id y' = a_id z \<and> \<not> acknowledged y')" by blast
        with ne show ?thesis unfolding eq by auto
      qed
    qed
    from Cons.IH [OF d l inv, of "n + 1"] False ids
    show ?thesis by (simp add: step)
  qed
qed

text \<open>
  C6 (what the code does). The route that acknowledges one alert deletes that alert's
  cooldown entry, so the alert can fire again at once. The route that acknowledges all
  alerts marks every stored alert acknowledged (ids distinct, at most 1000 stored) through
  the same storage call, and leaves the cooldown map as it was: a trigger that was in
  cooldown before the request is still suppressed after it.
\<close>

theorem acknowledge_all_keeps_cooldown:
  "(let st' = snd (post_acknowledge_all clk st)
    in alertCooldown st' = alertCooldown st
       \<and> (distinct (map a_id (alertHistory st)) \<and> length (alertHistory st) \<le> 1000 \<longrightarrow>
            list_all acknowledged (alertHistory st')
            \<and> map a_id (alertHistory st') = map a_id (alertHistory st))
       \<and> (\<forall>cfg clk' ty pip nm sn d.
             isInCooldown cfg clk' (cooldownKey pip ty sn) st \<longrightarrow>
             triggerAlert cfg clk' ty pip nm sn d st' = (None, st')))"
proof -
  define st' where "st' = snd (post_acknowledge_all clk st)"
  have cd: "alertCooldown st' = alertCooldown st"
    by (simp add: st'_def post_acknowledge_all_def Let_def)
  have hist: "alertHistory st' =
      fst (foldl (\<lambda>(stored, count) a.
                     if \<not> acknowledged a
                     then (snd (acknowledgeAlert clk (a_id a) ''user'' stored), count + 1)
                     else (stored, count)) (alertHistory st, 0 :: nat) (alertHistory st))"
    by (simp add: st'_def post_acknowledge_all_def Let_def)
  have acked: "list_all acknowledged (alertHistory st')
               \<and> map a_id (alertHistory st') = map a_id (alertHistory st)"
    if "distinct (map a_id (alertHistory st))" and "length (alertHistory st) \<le> 1000"
  proof -
    have inv: "\<forall>z \<in> set (alertHistory st). acknowledged z
                 \<or> (\<exists>y \<in> set (alertHistory st). a_id y = a_id z \<and> \<not> acknowledged y)"
      by auto
    show ?thesis
      unfolding hist by (rule ack_all_loop [OF that inv])
  qed
  have sup: "triggerAlert cfg clk' ty pip nm sn d st' = (None, st')"
    if "isInCooldown cfg clk' (cooldownKey pip ty sn) st" for cfg clk' ty pip nm sn d
  proof -
    from that cd have "isInCooldown cfg clk' (cooldownKey pip ty sn) st'"
      by (simp add: isInCooldown_def)
    then show ?thesis by (rule triggerAlert_suppressed)
  qed
  show ?thesis
    unfolding Let_def st'_def [symmetric]
    using cd acked sup by blast
qed

theorem acknowledge_all_keeps_cooldown_witness:
  "(let cfg = example_config None;
        st3 = run_polls cfg
                [(0, toner_printer True 25 100), (60000, toner_printer True 15 100),
                 (120000, toner_printer True 8 100), (180000, toner_printer True 8 100)]
                idle_engine;
        st4 = snd (post_acknowledge_all (clock_at 180500) st3)
    in map a_id (alertHistory st3) = [''60000'', ''120000'']
       \<and> map acknowledged (alertHistory st3) = [False, False]
       \<and> alertCooldown st3 ''10.0.0.7-critical-supply-Black Toner'' = Some 120000
       \<and> fst (post_acknowledge_all (clock_at 180500) st3) = 2
       \<and> map acknowledged (alertHistory st4) = [True, True]
       \<and> alertCooldown st4 ''10.0.0.7-critical-supply-Black Toner'' = Some 120000
       \<and> map a_type (alertHistory (run_polls cfg [(181000, toner_printer True 8 100)] st4))
          = [''low-supply'', ''critical-supply''])"
proof -
  define st3 where "st3 = run_polls (example_config None)
                [(0, toner_printer True 25 100), (60000, toner_printer True 15 100),
                 (120000, toner_printer True 8 100), (180000, toner_printer True 8 100)]
                idle_engine"
  have c1: "map a_id (alertHistory st3) = [''60000'', ''120000'']"
    unfolding st3_def by (simp add: eval_defs)
  have c2: "map acknowledged (alertHistory st3) = [False, False]"
    unfolding st3_def by (simp add: eval_defs)
  have c3: "alertCooldown st3 ''10.0.0.7-critical-supply-Black Toner'' = Some 120000"
    unfolding st3_def by (simp add: eval_defs)
  have c4: "alertCooldown (snd (post_acknowledge_all (clock_at 180500) st3))
              ''10.0.0.7-critical-supply-Black Toner'' = Some 120000"
    using acknowledge_all_keeps_cooldown [of "clock_at 180500" st3] c3
    by (simp add: Let_def)
  have c5: "fst (post_acknowledge_all (clock_at 180500) st3) = 2"
    unfolding st3_def
    by (simp add: eval_defs post_acknowledge_all_def acknowledgeAlert_def)
  have c6: "map acknowledged (alertHistory (snd (post_acknowledge_all (clock_at 180500) st3)))
              = [True, True]"
    unfolding st3_def
    by (simp add: eval_defs post_acknowledge_all_def acknowledgeAlert_def)
  have c7: "map a_type (alertHistory (run_polls (example_config None)
              [(181000, toner_printer True 8 100)]
              (snd (post_acknowledge_all (clock_at 180500) st3))))
            = [''low-supply'', ''critical-supply'']"
    unfolding st3_def
    by (simp add: eval_defs post_acknowledge_all_def acknowledgeAlert_def)
  show ?thesis
    unfolding Let_def st3_def [symmetric]
    using c1 c2 c3 c4 c5 c6 c7 by blast
qed

subsection \<open>Polling an unreachable device\<close>

lemma registry_set_lookup: "map_of (registry_set k v reg) k = Some v"
  by (induction reg) auto

text \<open>
  The claim as stated fails: after a background refresh that finds the device unreachable,
  the registry holds a fresh record with no supplies, where the snapshot before the poll had
  a toner entry.
\<close>

theorem stale_data_counterexample:
  "(let before = [(''10.0.0.7'', toner_printer True 50 100)];
        after = fst (autoRefresh (example_config None) unreachable_net (clock_at 60000) False
                       (before, idle_engine))
    in map (\<lambda>(k, p). supplies p) before
         = [[\<lparr>s_name = ''Black Toner'', s_current = 50, s_max = 100, s_type = ''toner''\<rparr>]]
       \<and> map (\<lambda>(k, p). (online p, status p, supplies p, name p, totalPages p)) after
         = [(False, ''offline'', [], None, Some 0)])"
  by (simp add: autoRefresh_def refreshAll_def queryPrinter_def blankPrinter_def
      unreachable_net_def toner_printer_def truthy_def Let_def)

text \<open>
  C1 (as amended). When the anchor query (system description) of a device returns no value
  or an empty one, the poll produces a fresh record: \<open>online = false\<close>,
  \<open>status = offline\<close>, no supplies, trays or errors, no name, model or serial, page count
  0. Any two such polls of that device agree on everything but \<open>lastUpdate\<close>, and the
  record replaces whatever the registry held for the address.
\<close>

theorem unreachable_poll:
  assumes "\<not> truthy (snmpGet net addr (PRINTER_OIDS Description) community)"
  shows "queryPrinter net clk addr community =
           \<lparr>ip = addr, name = None, model = None, serial = None, status = ''offline'',
            totalPages = Some 0, supplies = [], trays = [], errors = [],
            network = \<lparr>sysName = None, sysLocation = None, sysContact = None\<rparr>,
            lastUpdate = iso clk, online = False\<rparr>
       \<and> (\<forall>net' clk'.
             \<not> truthy (snmpGet net' addr (PRINTER_OIDS Description) community) \<longrightarrow>
             queryPrinter net' clk' addr community
               = (queryPrinter net clk addr community)\<lparr>lastUpdate := iso clk'\<rparr>)
       \<and> (\<forall>reg. map_of (registry_set addr (queryPrinter net clk addr community) reg) addr
                   = Some (queryPrinter net clk addr community))"
  using assms
  by (simp add: queryPrinter_def blankPrinter_def Let_def registry_set_lookup)

theorem unreachable_poll_witness:
  "\<not> truthy (snmpGet unreachable_net ''10.0.0.7'' (PRINTER_OIDS Description) ''public'')
   \<and> (let cfg = example_config None;
           first = fst (autoRefresh cfg unreachable_net (clock_at 60000) False
                          ([(''10.0.0.7'', toner_printer True 50 100)], idle_engine));
           second = fst (autoRefresh cfg unreachable_net (clock_at 120000) False
                           (first, idle_engine))
       in first = [(''10.0.0.7'',
                    queryPrinter unreachable_net (clock_at 60000) ''10.0.0.7'' ''public'')]
          \<and> second = first
          \<and> map (\<lambda>(k, p). (online p, status p, supplies p, trays p, errors p)) second
              = [(False, ''offline'', [], [], [])])"
proof -
  have h: "\<not> truthy (snmpGet unreachable_net ''10.0.0.7'' (PRINTER_OIDS Description) ''public'')"
    by (simp add: unreachable_net_def truthy_def)
  show ?thesis
    using h unreachable_poll [OF h, of "clock_at 60000"]
    by (simp add: autoRefresh_def refreshAll_def Let_def clock_at_def)
qed

subsection \<open>Vendor fallback chains\<close>

text \<open>
  C8 (what the code does). For the status field the chain moves on to the second candidate
  only when the first one gave no answer or an empty one. A first answer that is not a
  number (the candidate is the console display text on many devices) ends the chain: the
  second candidate is not tried and the status stays \<open>unknown\<close>. The page count chain, by
  contrast, does move on after such an answer, as the witness shows.
\<close>

theorem status_chain_stops_at_first_answer:
  assumes "truthy (snmpGet net addr (PRINTER_OIDS Description) community)"
    and "snmpGet net addr (PRINTER_OIDS DeviceStatus) community = Some v"
    and "v \<noteq> []" and "isNaN v"
  shows "status (queryPrinter net clk addr community) = ''unknown''"
  using assms by (simp add: queryPrinter_def resolveStatus_def truthy_def Let_def)

lemmas str_eval = isNaN_def trim_def is_space_def non_decimal_ok_def unsigned_decimal_ok_def
  is_digit_def exponent_ok_def parseInt_def is_radix_digit_def digit_val_def digits_value_def
  all_digits_def Let_def

theorem status_chain_stops_at_first_answer_witness:
  "truthy (snmpGet text_status_net ''10.0.0.7'' (PRINTER_OIDS Description) ''public'')
   \<and> snmpGet text_status_net ''10.0.0.7'' (PRINTER_OIDS DeviceStatus) ''public'' = Some ''Ready''
   \<and> isNaN ''Ready''
   \<and> snmpGet text_status_net ''10.0.0.7'' (PRINTER_OIDS StatusAlt1) ''public'' = Some ''3''
   \<and> \<not> isNaN ''3'' \<and> table_or DEVICE_STATUS (parseInt ''3'') ''unknown'' = ''idle''
   \<and> status (queryPrinter text_status_net (clock_at 0) ''10.0.0.7'' ''public'') = ''unknown''
   \<and> snmpGet text_status_net ''10.0.0.7'' (PRINTER_OIDS TotalPages) ''public'' = Some ''n/a''
   \<and> isNaN ''n/a''
   \<and> totalPages (queryPrinter text_status_net (clock_at 0) ''10.0.0.7'' ''public'') = Some 1234"
proof -
  have h1: "truthy (snmpGet text_status_net ''10.0.0.7'' (PRINTER_OIDS Description) ''public'')"
    by (simp add: text_status_net_def truthy_def)
  have h2: "snmpGet text_status_net ''10.0.0.7'' (PRINTER_OIDS DeviceStatus) ''public''
              = Some ''Ready''"
    by (simp add: text_status_net_def)
  have h3: "''Ready'' \<noteq> []" by simp
  have h4: "isNaN ''Ready''" by (simp add: str_eval)
  have alt: "snmpGet text_status_net ''10.0.0.7'' (PRINTER_OIDS StatusAlt1) ''public'' = Some ''3''"
    by (simp add: text_status_net_def)
  have n3: "\<not> isNaN ''3''" by (simp add: str_eval)
  have idle: "table_or DEVICE_STATUS (parseInt ''3'') ''unknown'' = ''idle''"
    by (simp add: str_eval table_or_def DEVICE_STATUS_def or_default_def truthy_def)
  have p0: "snmpGet text_status_net ''10.0.0.7'' (PRINTER_OIDS TotalPages) ''public'' = Some ''n/a''"
    by (simp add: text_status_net_def)
  have na: "isNaN ''n/a''" by (simp add: str_eval)
  have n1234: "\<not> isNaN ''1234''" by (simp add: str_eval)
  have p1234: "parseInt ''1234'' = Some 1234" by (simp add: str_eval)
  have pages: "totalPages (queryPrinter text_status_net (clock_at 0) ''10.0.0.7'' ''public'')
                 = Some 1234"
    using h1 na n1234 p1234
    by (simp add: queryPrinter_def resolvePages_def not_numeric_def text_status_net_def Let_def)
  show ?thesis
    using status_chain_stops_at_first_answer [OF h1 h2 h3 h4, of "clock_at 0"]
      h1 h2 h4 alt n3 idle p0 na pages
    by blast
qed

subsection \<open>Supply table rows\<close>

lemma map_filter_snoc:
  "List.map_filter f (xs @ [x]) =
     (case f x of None \<Rightarrow> List.map_filter f xs | Some y \<Rightarrow> List.map_filter f xs @ [y])"
  by (simp add: List.map_filter_def split: option.splits)

lemma supply_loop:
  "foldl (\<lambda>acc i. if i < length ms \<and> i < length cs
                   then (case supplyRow (ns ! i) (ms ! i) (cs ! i) of
                           None \<Rightarrow> acc | Some e \<Rightarrow> acc @ [e])
                   else acc) [] [0 ..< n]
     = List.map_filter (\<lambda>(a, b, c). supplyRow a b c) (take n (zip ns (zip ms cs)))"
  if "n \<le> length ns"
  using that
proof (induction n)
  case 0
  show ?case by (simp add: List.map_filter_def)
next
  case (Suc n)
  then have n: "n < length ns" and ih: "foldl (\<lambda>acc i. if i < length ms \<and> i < length cs
                   then (case supplyRow (ns ! i) (ms ! i) (cs ! i) of
                           None \<Rightarrow> acc | Some e \<Rightarrow> acc @ [e])
                   else acc) [] [0 ..< n]
     = List.map_filter (\<lambda>(a, b, c). supplyRow a b c) (take n (zip ns (zip ms cs)))"
    by simp_all
  show ?case
  proof (cases "n < length ms \<and> n < length cs")
    case True
    with n have len: "n < length (zip ns (zip ms cs))" by simp
    have nth: "zip ns (zip ms cs) ! n = (ns ! n, ms ! n, cs ! n)"
      using True n by simp
    show ?thesis
      using True ih
      by (simp add: take_Suc_conv_app_nth [OF len] nth map_filter_snoc)
  next
    case False
    with n have "length (zip ns (zip ms cs)) \<le> n" by auto
    then have "take (Suc n) (zip ns (zip ms cs)) = take n (zip ns (zip ms cs))"
      by simp
    with False ih show ?thesis by auto
  qed
qed

lemma processSupplies_rows:
  "processSupplies ns ms cs
     = List.map_filter (\<lambda>(a, b, c). supplyRow a b c) (zip ns (zip ms cs))"
proof (cases "length ns > 0 \<and> length ms > 0 \<and> length cs > 0")
  case True
  then show ?thesis
    using supply_loop [of "length ns" ns ms cs]
    by (simp add: processSupplies_def)
next
  case False
  then have "zip ns (zip ms cs) = []" by auto
  with False show ?thesis
    by (auto simp add: processSupplies_def List.map_filter_def)
qed

lemma supplyRow_Some:
  assumes "supplyRow n m c = Some e"
  shows "s_name e = trim n" "parseInt m = Some (s_max e)" "parseInt c = Some (s_current e)"
    "s_type e = supplyType (trim (toLowerCase n))" "s_type e \<noteq> ''other''"
    "s_max e > 0" "length (trim n) \<ge> 3" "\<not> all_digits (trim n)"
  using assms
  by (auto simp: supplyRow_def Let_def split: option.splits if_splits)

lemma supplyRow_None:
  assumes "length (trim n) < 3 \<or> all_digits (trim n) \<or> parseInt m = None \<or> parseInt c = None
           \<or> (\<exists>v. parseInt m = Some v \<and> v \<le> 0)
           \<or> supplyType (trim (toLowerCase n)) = ''other''"
  shows "supplyRow n m c = None"
  using assms
  by (auto simp: supplyRow_def Let_def split: option.splits if_splits)

text \<open>
  C7 (as amended). The supply loop handles the three walks row by row, up to the end of the
  shortest, and keeps the order. A row whose trimmed name has fewer than 3 characters or only
  digits, whose max or current value \<open>parseInt\<close> reads as \<open>NaN\<close> (no digit after
  leading white space and a sign), whose max is not positive, or whose class is \<open>other\<close>
  contributes nothing; a value that begins with digits counts as that number. Every stored entry comes from a row that passes all
  these tests, with the trimmed name and the parsed values. The class is decided on the
  lower-cased name in priority order: toner, ink or cartridge (waste if the name also
  contains waste), drum, fuser or fixing, belt or transfer, maintenance or kit, else other.
\<close>

theorem supply_rows_filtered:
  "processSupplies names maxs curs
     = List.map_filter (\<lambda>(n, m, c). supplyRow n m c) (zip names (zip maxs curs))
   \<and> (\<forall>n m c.
         length (trim n) < 3 \<or> all_digits (trim n) \<or> parseInt m = None \<or> parseInt c = None
         \<or> (\<exists>v. parseInt m = Some v \<and> v \<le> 0)
         \<or> supplyType (trim (toLowerCase n)) = ''other''
         \<longrightarrow> supplyRow n m c = None)
   \<and> (\<forall>e \<in> set (processSupplies names maxs curs).
         \<exists>i. i < length names \<and> i < length maxs \<and> i < length curs
           \<and> s_name e = trim (names ! i)
           \<and> parseInt (maxs ! i) = Some (s_max e)
           \<and> parseInt (curs ! i) = Some (s_current e)
           \<and> s_type e = supplyType (trim (toLowerCase (names ! i)))
           \<and> length (s_name e) \<ge> 3 \<and> \<not> all_digits (s_name e) \<and> s_max e > 0
           \<and> s_type e \<noteq> ''other'')
   \<and> (\<forall>nl.
         (let tic = (str_includes nl ''toner'' \<or> str_includes nl ''ink''
                     \<or> str_includes nl ''cartridge'');
              dr = str_includes nl ''drum'';
              fu = (str_includes nl ''fuser'' \<or> str_includes nl ''fixing'');
              tr = (str_includes nl ''belt'' \<or> str_includes nl ''transfer'');
              ma = (str_includes nl ''maintenance'' \<or> str_includes nl ''kit'')
          in (tic \<and> str_includes nl ''waste'' \<longrightarrow> supplyType nl = ''waste'')
             \<and> (tic \<and> \<not> str_includes nl ''waste'' \<longrightarrow> supplyType nl = ''toner'')
             \<and> (\<not> tic \<and> dr \<longrightarrow> supplyType nl = ''drum'')
             \<and> (\<not> tic \<and> \<not> dr \<and> fu \<longrightarrow> supplyType nl = ''fuser'')
             \<and> (\<not> tic \<and> \<not> dr \<and> \<not> fu \<and> tr \<longrightarrow> supplyType nl = ''transfer'')
             \<and> (\<not> tic \<and> \<not> dr \<and> \<not> fu \<and> \<not> tr \<and> ma \<longrightarrow> supplyType nl = ''maintenance'')
             \<and> (\<not> tic \<and> \<not> dr \<and> \<not> fu \<and> \<not> tr \<and> \<not> ma \<longrightarrow> supplyType nl = ''other'')))"
proof -
  have rows: "processSupplies names maxs curs
     = List.map_filter (\<lambda>(n, m, c). supplyRow n m c) (zip names (zip maxs curs))"
    by (rule processSupplies_rows)
  have dropped: "\<forall>n m c.
         length (trim n) < 3 \<or> all_digits (trim n) \<or> parseInt m = None \<or> parseInt c = None
         \<or> (\<exists>v. parseInt m = Some v \<and> v \<le> 0)
         \<or> supplyType (trim (toLowerCase n)) = ''other''
         \<longrightarrow> supplyRow n m c = None"
    using supplyRow_None by blast
  have stored: "\<exists>i. i < length names \<and> i < length maxs \<and> i < length curs
           \<and> s_name e = trim (names ! i)
           \<and> parseInt (maxs ! i) = Some (s_max e)
           \<and> parseInt (curs ! i) = Some (s_current e)
           \<and> s_type e = supplyType (trim (toLowerCase (names ! i)))
           \<and> length (s_name e) \<ge> 3 \<and> \<not> all_digits (s_name e) \<and> s_max e > 0
           \<and> s_type e \<noteq> ''other''"
    if e: "e \<in> set (processSupplies names maxs curs)" for e
  proof -
    from e obtain z where z: "z \<in> set (zip names (zip maxs curs))"
      and ze: "(\<lambda>(n, m, c). supplyRow n m c) z = Some e"
      unfolding rows List.map_filter_def by auto
    from z obtain i where i: "i < length (zip names (zip maxs curs))"
      and zi: "zip names (zip maxs curs) ! i = z"
      by (auto simp: in_set_conv_nth)
    from i have b: "i < length names" "i < length maxs" "i < length curs" by simp_all
    with zi have "z = (names ! i, maxs ! i, curs ! i)" by simp
    with ze have r: "supplyRow (names ! i) (maxs ! i) (curs ! i) = Some e" by simp
    show ?thesis
      using b supplyRow_Some [OF r] by auto
  qed
  have cls: "\<forall>nl.
         (let tic = (str_includes nl ''toner'' \<or> str_includes nl ''ink''
                     \<or> str_includes nl ''cartridge'');
              dr = str_includes nl ''drum'';
              fu = (str_includes nl ''fuser'' \<or> str_includes nl ''fixing'');
              tr = (str_includes nl ''belt'' \<or> str_includes nl ''transfer'');
              ma = (str_includes nl ''maintenance'' \<or> str_includes nl ''kit'')
          in (tic \<and> str_includes nl ''waste'' \<longrightarrow> supplyType nl = ''waste'')
             \<and> (tic \<and> \<not> str_includes nl ''waste'' \<longrightarrow> supplyType nl = ''toner'')
             \<and> (\<not> tic \<and> dr \<longrightarrow> supplyType nl = ''drum'')
             \<and> (\<not> tic \<and> \<not> dr \<and> fu \<longrightarrow> supplyType nl = ''fuser'')
             \<and> (\<not> tic \<and> \<not> dr \<and> \<not> fu \<and> tr \<longrightarrow> supplyType nl = ''transfer'')
             \<and> (\<not> tic \<and> \<not> dr \<and> \<not> fu \<and> \<not> tr \<and> ma \<longrightarrow> supplyType nl = ''maintenance'')
             \<and> (\<not> tic \<and> \<not> dr \<and> \<not> fu \<and> \<not> tr \<and> \<not> ma \<longrightarrow> supplyType nl = ''other''))"
    by (simp add: supplyType_def Let_def)
  from rows dropped stored cls show ?thesis by blast
qed

theorem supply_rows_filtered_witness:
  "processSupplies
     [''Black Toner Cartridge '', ''12345'', ''ab'', ''Waste Toner Box'', ''Imaging Drum'',
      ''Staples'', ''Fuser Unit'', ''Cyan Toner'', ''Transfer Belt'', ''Magenta Toner'']
     [''100'', ''100'', ''100'', ''200'', ''-2'', ''100'', ''abc'', ''0'', ''300'', ''100'']
     [''50'', ''50'', ''50'', ''20'', ''10'', ''10'', ''10'', ''10'', ''-3'']
   = [\<lparr>s_name = ''Black Toner Cartridge'', s_current = 50, s_max = 100, s_type = ''toner''\<rparr>,
      \<lparr>s_name = ''Waste Toner Box'', s_current = 20, s_max = 200, s_type = ''waste''\<rparr>,
      \<lparr>s_name = ''Transfer Belt'', s_current = - 3, s_max = 300, s_type = ''transfer''\<rparr>]"
  using supply_rows_filtered [of
     "[''Black Toner Cartridge '', ''12345'', ''ab'', ''Waste Toner Box'', ''Imaging Drum'',
      ''Staples'', ''Fuser Unit'', ''Cyan Toner'', ''Transfer Belt'', ''Magenta Toner'']"
     "[''100'', ''100'', ''100'', ''200'', ''-2'', ''100'', ''abc'', ''0'', ''300'', ''100'']"
     "[''50'', ''50'', ''50'', ''20'', ''10'', ''10'', ''10'', ''10'', ''-3'']"]
  by (simp add: List.map_filter_def supplyRow_def supplyType_def str_eval toLowerCase_def
      lower_char_def is_upper_def)

subsection \<open>Values that are not numbers\<close>

text \<open>
  The claim as stated fails for a value that is not a number but begins with digits: a row
  with max \<open>200 pages\<close> and current \<open>50%\<close>, neither of which converts to a number, is
  stored with max 200 and current 50.
\<close>

theorem lenient_parse_counterexample:
  "isNaN ''200 pages'' \<and> isNaN ''50%''
   \<and> processSupplies [''Black Toner''] [''200 pages''] [''50%'']
      = [\<lparr>s_name = ''Black Toner'', s_current = 50, s_max = 200, s_type = ''toner''\<rparr>]"
  by (simp add: processSupplies_def supplyRow_def supplyType_def str_eval toLowerCase_def
      lower_char_def is_upper_def)

subsection \<open>Supply thresholds\<close>

lemma polled_printer_half:
  "queryPrinter half_percent_net (clock_at 0) ''10.0.0.7'' ''public'' =
     \<lparr>ip = ''10.0.0.7'', name = Some ''HP LaserJet'', model = Some ''HP LaserJet'',
      serial = None, status = ''unknown'', totalPages = Some 0,
      supplies = [\<lparr>s_name = ''Black Toner'', s_current = 29, s_max = 200, s_type = ''toner''\<rparr>],
      trays = [], errors = [],
      network = \<lparr>sysName = None, sysLocation = None, sysContact = None\<rparr>,
      lastUpdate = ''2024-03-03T12:00:00.000Z'', online = True\<rparr>"
  by (simp add: queryPrinter_def blankPrinter_def half_percent_net_def clock_at_def truthy_def
      resolveSerial_def resolveStatus_def resolvePages_def not_numeric_def null_if_falsy_def
      processSupplies_def processTrays_def processErrors_def supplyRow_def supplyType_def
      str_eval toLowerCase_def lower_char_def is_upper_def)

text \<open>
  The claim as stated fails where the exact percentage ends in a half. A device reports a
  toner at 29 of 200, which the poller stores. The exact value is 14.5, which rounds to 15
  and would lie in the low range \<open>[15, 20)\<close> of a configuration with thresholds 15 and 20.
  The source computes \<open>29 / 200\<close> and the product with 100 in doubles, gets a value just
  below 14.5, rounds it to 14 and fires \<open>critical-supply\<close>.
\<close>

theorem half_percent_counterexample:
  "(let cfg = threshold15_config;
        s = autoRefresh cfg half_percent_net (clock_at 0) False
              ([(''10.0.0.7'', blankPrinter (clock_at 0) ''10.0.0.7'')], idle_engine)
    in map (\<lambda>(k, p). (online p, supplies p)) (fst s)
         = [(True, [\<lparr>s_name = ''Black Toner'', s_current = 29, s_max = 200,
                     s_type = ''toner''\<rparr>])]
       \<and> js_round (29 / 200 * 100) = 15
       \<and> criticalSupplyThreshold (alerts cfg) \<le> 15 \<and> 15 < lowSupplyThreshold (alerts cfg)
       \<and> map (\<lambda>a. (a_type a, percentage (a_details a))) (alertHistory (snd s))
         = [(''critical-supply'', Some 14)])"
proof -
  have exact: "js_round (29 / 2) = 15" by (simp add: js_round_def)
  show ?thesis
    by (simp add: autoRefresh_def refreshAll_def polled_printer_half)
      (simp add: threshold15_config_def eval_defs exact)
qed


lemma stored_supply_max:
  "e \<in> set (supplies (queryPrinter net clk addr community)) \<Longrightarrow> s_max e > 0"
proof -
  assume e: "e \<in> set (supplies (queryPrinter net clk addr community))"
  then obtain ns ms cs where "e \<in> set (processSupplies ns ms cs)"
    by (auto simp: queryPrinter_def blankPrinter_def Let_def split: if_splits)
  then obtain z where "(\<lambda>(n, m, c). supplyRow n m c) z = Some e"
    unfolding processSupplies_rows List.map_filter_def by auto
  then obtain n m c where "supplyRow n m c = Some e" by (cases z) auto
  then show ?thesis by (rule supplyRow_Some)
qed

lemma js_round_bounds: "of_int (js_round x) \<le> x + 1 / 2 \<and> x - 1 / 2 < of_int (js_round x)"
  unfolding js_round_def by linarith

text \<open>
  C5 (as amended). For every supply of every online device the alert engine evaluates
  exactly the supplies whose lower-cased name contains \<open>toner\<close> or \<open>ink\<close> and neither
  \<open>drum\<close> nor \<open>fuser\<close>. For \<open>max > 0\<close>, which holds of every supply the poller stores, the
  percentage is \<open>Math.round\<close> (nearest integer, halves up) of the double that the two
  double operations \<open>current / max\<close> and \<open>* 100\<close> give; that double is within a relative
  error of \<open>2 ^ -51\<close> of the exact value, so the percentage is the rounded exact value except
  possibly where that lies this close to a half. For \<open>max \<le> 0\<close> the engine takes 100. A
  percentage in \<open>[0, critical)\<close> triggers \<open>critical-supply\<close>, one in \<open>[critical, low)\<close>
  triggers \<open>low-supply\<close>, and anything else leaves the state as it is. A device that is not
  online has none of its supplies evaluated.
\<close>

theorem supply_thresholds:
  "(let nm = toLowerCase (s_name sp);
        evaluated = ((str_includes nm ''toner'' \<or> str_includes nm ''ink'')
                     \<and> \<not> (str_includes nm ''drum'' \<or> str_includes nm ''fuser''));
        pct = supplyPercentage sp;
        exact = (of_int (s_current sp) / of_int (s_max sp) * 100 :: rat);
        dbl = double_mul (double_div (of_int (s_current sp)) (of_int (s_max sp))) 100;
        crit = criticalSupplyThreshold (alerts cfg);
        low = lowSupplyThreshold (alerts cfg);
        who = or_default (name p) (ip p);
        fire = (\<lambda>ty. snd (triggerAlert cfg clk ty (ip p) who (Some (s_name sp))
                            (no_details\<lparr>percentage := Some pct\<rparr>) st))
    in (s_max sp > 0 \<longrightarrow>
          of_int pct \<le> dbl + 1 / 2 \<and> dbl - 1 / 2 < of_int pct
          \<and> \<bar>dbl - exact\<bar> \<le> \<bar>exact\<bar> / 2 ^ 51)
       \<and> (s_max sp \<le> 0 \<longrightarrow> pct = 100)
       \<and> (\<forall>net clk' addr community.
             \<forall>e \<in> set (supplies (queryPrinter net clk' addr community)). s_max e > 0)
       \<and> (evaluated \<and> 0 \<le> pct \<and> pct < crit \<longrightarrow>
             checkSupply cfg clk p sp st = fire ''critical-supply'')
       \<and> (evaluated \<and> \<not> (0 \<le> pct \<and> pct < crit) \<and> crit \<le> pct \<and> pct < low \<longrightarrow>
             checkSupply cfg clk p sp st = fire ''low-supply'')
       \<and> (\<not> evaluated \<or> (\<not> (0 \<le> pct \<and> pct < crit) \<and> \<not> (crit \<le> pct \<and> pct < low)) \<longrightarrow>
             checkSupply cfg clk p sp st = st)
       \<and> (online p \<and> status p \<noteq> ''offline'' \<longrightarrow>
             checkPrinter cfg clk p st =
               foldl (\<lambda>acc sp. checkSupply cfg clk p sp acc) (checkRecovery cfg clk p st)
                 (supplies p))
       \<and> (\<not> online p \<or> status p = ''offline'' \<longrightarrow>
             checkPrinter cfg clk p st = checkOffline cfg clk p st))"
proof -
  let ?dbl = "double_mul (double_div (of_int (s_current sp)) (of_int (s_max sp))) 100"
  let ?exact = "of_int (s_current sp) / of_int (s_max sp) * 100 :: rat"
  have r: "s_max sp > 0 \<longrightarrow>
             of_int (supplyPercentage sp) \<le> ?dbl + 1 / 2
             \<and> ?dbl - 1 / 2 < of_int (supplyPercentage sp)"
    using js_round_bounds [of ?dbl] by (simp add: supplyPercentage_def)
  have e: "\<bar>?dbl - ?exact\<bar> \<le> \<bar>?exact\<bar> / 2 ^ 51"
    by (rule double_percent_error)
  have g: "s_max sp \<le> 0 \<longrightarrow> supplyPercentage sp = 100"
    by (simp add: supplyPercentage_def)
  have m: "\<forall>net clk' addr community.
             \<forall>e \<in> set (supplies (queryPrinter net clk' addr community)). s_max e > 0"
    using stored_supply_max by blast
  have t: "(let nm = toLowerCase (s_name sp);
        evaluated = ((str_includes nm ''toner'' \<or> str_includes nm ''ink'')
                     \<and> \<not> (str_includes nm ''drum'' \<or> str_includes nm ''fuser''));
        pct = supplyPercentage sp;
        crit = criticalSupplyThreshold (alerts cfg);
        low = lowSupplyThreshold (alerts cfg);
        who = or_default (name p) (ip p);
        fire = (\<lambda>ty. snd (triggerAlert cfg clk ty (ip p) who (Some (s_name sp))
                            (no_details\<lparr>percentage := Some pct\<rparr>) st))
    in (evaluated \<and> 0 \<le> pct \<and> pct < crit \<longrightarrow>
             checkSupply cfg clk p sp st = fire ''critical-supply'')
       \<and> (evaluated \<and> \<not> (0 \<le> pct \<and> pct < crit) \<and> crit \<le> pct \<and> pct < low \<longrightarrow>
             checkSupply cfg clk p sp st = fire ''low-supply'')
       \<and> (\<not> evaluated \<or> (\<not> (0 \<le> pct \<and> pct < crit) \<and> \<not> (crit \<le> pct \<and> pct < low)) \<longrightarrow>
             checkSupply cfg clk p sp st = st))"
    by (auto simp: checkSupply_def Let_def)
  have cp: "(online p \<and> status p \<noteq> ''offline'' \<longrightarrow>
             checkPrinter cfg clk p st =
               foldl (\<lambda>acc sp. checkSupply cfg clk p sp acc) (checkRecovery cfg clk p st)
                 (supplies p))
       \<and> (\<not> online p \<or> status p = ''offline'' \<longrightarrow>
             checkPrinter cfg clk p st = checkOffline cfg clk p st)"
    by (auto simp: checkPrinter_def)
  show ?thesis
    using r e g m t cp unfolding Let_def by blast
qed

theorem supply_thresholds_witness:
  "(let sp = \<lparr>s_name = ''Black Toner'', s_current = 30, s_max = 200, s_type = ''toner''\<rparr>;
        p = toner_printer True 30 200;
        cfg = example_config None
    in s_max sp > 0 \<and> supplyPercentage sp = 15
       \<and> online p \<and> status p \<noteq> ''offline''
       \<and> checkSupply cfg (clock_at 0) p sp idle_engine
          = snd (triggerAlert cfg (clock_at 0) ''low-supply'' ''10.0.0.7'' ''HP LaserJet''
                   (Some ''Black Toner'') (no_details\<lparr>percentage := Some 15\<rparr>) idle_engine)
       \<and> map a_type (alertHistory (checkPrinter cfg (clock_at 0) p idle_engine)) = [''low-supply'']
       \<and> map a_type (alertHistory (checkPrinter cfg (clock_at 0) (toner_printer True 18 200)
             idle_engine)) = [''critical-supply'']
       \<and> alertHistory (checkPrinter cfg (clock_at 0) (toner_printer True 40 200) idle_engine) = []
       \<and> supplyPercentage \<lparr>s_name = ''Black Toner'', s_current = 29, s_max = 200,
                            s_type = ''toner''\<rparr> = 14
       \<and> supplyPercentage \<lparr>s_name = ''Black Toner'', s_current = 1, s_max = 200,
                            s_type = ''toner''\<rparr> = 1)"
proof -
  let ?sp = "\<lparr>s_name = ''Black Toner'', s_current = 30, s_max = 200, s_type = ''toner''\<rparr>"
  have a: "toLowerCase (s_name ?sp) = ''black toner''"
    by (simp add: toLowerCase_def lower_char_def is_upper_def)
  have b: "supplyPercentage ?sp = 15"
    by (simp add: supplyPercentage_def percent_values)
  have c: "checkSupply (example_config None) (clock_at 0) (toner_printer True 30 200) ?sp
             idle_engine
           = snd (triggerAlert (example_config None) (clock_at 0) ''low-supply'' ''10.0.0.7''
                    ''HP LaserJet'' (Some ''Black Toner'')
                    (no_details\<lparr>percentage := Some 15\<rparr>) idle_engine)"
    using supply_thresholds [where cfg = "example_config None" and clk = "clock_at 0"
        and p = "toner_printer True 30 200" and st = idle_engine and sp = ?sp]
    unfolding Let_def a b
    by (simp add: example_config_def toner_printer_def or_default_def truthy_def)
  show ?thesis
    unfolding Let_def
    using c by (simp add: eval_defs)
qed

subsection \<open>Scan exclusivity\<close>

text \<open>
  C9. A request to start a discovery scan while one is active is answered with the
  conflict response; no scan is started and the state, with the \<open>scanning\<close> flag and
  the \<open>lastScan\<close> time stamp of the scan in flight, is unchanged.
\<close>

theorem scan_conflict:
  assumes "scanning (scanStatus s)"
  shows "post_scan network_prefix community s = (Conflict409, s)
       \<and> scanning (scanStatus (snd (post_scan network_prefix community s)))
       \<and> lastScan (scanStatus (snd (post_scan network_prefix community s))) = lastScan (scanStatus s)
       \<and> started (snd (post_scan network_prefix community s)) = started s"
  using assms by (simp add: post_scan_def)

theorem scan_conflict_witness:
  "scanning (scanStatus (scanNetworkRange_begin ''10.233.6'' ''public''
       \<lparr>scanStatus = \<lparr>scanning = False, lastScan = Some ''2024-03-03T11:00:00.000Z''\<rparr>, started = []\<rparr>))
   \<and> post_scan (Some ''192.168.1'') None
        (scanNetworkRange_begin ''10.233.6'' ''public''
          \<lparr>scanStatus = \<lparr>scanning = False, lastScan = Some ''2024-03-03T11:00:00.000Z''\<rparr>, started = []\<rparr>)
      = (Conflict409,
         \<lparr>scanStatus = \<lparr>scanning = True, lastScan = Some ''2024-03-03T11:00:00.000Z''\<rparr>,
          started = [(''10.233.6'', ''public'')]\<rparr>)"
proof -
  have h: "scanning (scanStatus (scanNetworkRange_begin ''10.233.6'' ''public''
       \<lparr>scanStatus = \<lparr>scanning = False, lastScan = Some ''2024-03-03T11:00:00.000Z''\<rparr>, started = []\<rparr>))"
    by (simp add: scanNetworkRange_begin_def)
  show ?thesis
    using scan_conflict [OF h, of "Some ''192.168.1''" None]
    by (simp add: scanNetworkRange_begin_def)
qed

subsection \<open>Alert history bound\<close>

lemma addAlerts_slice:
  "addAlerts as (slice_last 1000 st)
     = slice_last 1000 (st @ map (\<lambda>(clk, a). newAlert clk a) as)"
proof (induction as arbitrary: st)
  case Nil
  show ?case by simp
next
  case (Cons p as)
  obtain clk a where p: "p = (clk, a)" by (cases p)
  have "addAlerts (p # as) (slice_last 1000 st)
          = addAlerts as (slice_last 1000 (st @ [newAlert clk a]))"
    by (simp add: p addAlert_def saveAlertHistory_def slice_last_append)
  also have "\<dots> = slice_last 1000 ((st @ [newAlert clk a]) @ map (\<lambda>(clk, a). newAlert clk a) as)"
    by (rule Cons.IH)
  finally show ?case by (simp add: p)
qed

text \<open>
  C10. The persisted alert history is bounded at 1000 entries. Every \<open>addAlert\<close> saves the
  last 1000 of the stored alerts followed by the new one. So after a sequence of
  \<open>addAlert\<close> calls that is not empty, or that starts from a stored history of at most 1000
  alerts (the empty one at first start), the stored list is the last 1000 of the old alerts
  followed by the new ones in insertion order, and its length is at most 1000.
\<close>

theorem alert_history_bounded:
  assumes "as \<noteq> [] \<or> length st \<le> 1000"
  shows "addAlerts as st = slice_last 1000 (st @ map (\<lambda>(clk, a). newAlert clk a) as)
       \<and> length (addAlerts as st) \<le> 1000"
proof -
  have "addAlerts as st = slice_last 1000 (st @ map (\<lambda>(clk, a). newAlert clk a) as)"
  proof (cases as)
    case Nil
    with assms show ?thesis by (simp add: slice_last_short)
  next
    case (Cons p rest)
    obtain clk a where p: "p = (clk, a)" by (cases p)
    have "addAlerts as st = addAlerts rest (slice_last 1000 (st @ [newAlert clk a]))"
      by (simp add: Cons p addAlert_def saveAlertHistory_def)
    also have "\<dots> = slice_last 1000 ((st @ [newAlert clk a]) @ map (\<lambda>(clk, a). newAlert clk a) rest)"
      by (rule addAlerts_slice)
    finally show ?thesis by (simp add: Cons p)
  qed
  then show ?thesis by (simp add: slice_last_length)
qed

theorem alert_history_bounded_witness:
  "(let clk = clock_at 0;
        a = \<lparr>in_type = ''offline'', in_printerIp = ''10.0.0.7'', in_printerName = ''HP LaserJet'',
             in_supplyName = None, in_subject = ''Offline: HP LaserJet'', in_message = [],
             in_details = no_details\<rparr>;
        old = replicate 1500 (newAlert (clock_at (- 1)) a)
    in length old = 1500
       \<and> length (addAlerts [(clk, a)] old) = 1000
       \<and> last (addAlerts [(clk, a)] old) = newAlert clk a
       \<and> length (addAlerts (replicate 1001 (clk, a)) []) = 1000)"
proof -
  let ?a = "\<lparr>in_type = ''offline'', in_printerIp = ''10.0.0.7'', in_printerName = ''HP LaserJet'',
             in_supplyName = None, in_subject = ''Offline: HP LaserJet'', in_message = [],
             in_details = no_details\<rparr>"
  have h1: "[(clock_at 0, ?a)] \<noteq> [] \<or> length (replicate 1500 (newAlert (clock_at (- 1)) ?a)) \<le> 1000"
    by simp
  have h2: "replicate 1001 (clock_at 0, ?a) \<noteq> [] \<or> length ([] :: alert list) \<le> 1000"
    by simp
  show ?thesis
    using alert_history_bounded [OF h1] alert_history_bounded [OF h2]
    by (simp add: Let_def slice_last_def)
qed

end
